theory Spec2Isabelle
  imports Complex_Main "HOL-Library.Word"
begin

unbundle bit_operations_syntax

section \<open>Python values\<close>

text \<open>
  The pipeline reads spreadsheet cells and JSON leaves. Both are Python scalars: \<open>None\<close>,
  a \<open>bool\<close>, an unbounded \<open>int\<close>, a \<open>float\<close> or a \<open>str\<close>. Strings are lists of
  code points below 256. Exceptions are values: a function that can raise returns
  \<open>exn + 'a\<close>.
\<close>

datatype exn = ValueError | TypeError | OverflowError | AttributeError

text \<open>
  A binary64 float: a finite value (held as the number it denotes; \<open>Fin 0\<close> is \<open>+0.0\<close>),
  negative zero, the two infinities and NaN.
\<close>

datatype pyfloat = Fin real | NegZero | PInf | NInf | NaN

datatype atom = ANone | ABool bool | AInt int | AFloat pyfloat | AStr string

subsection \<open>Rounding to binary64\<close>

definition pow2 :: "int \<Rightarrow> real" where
  "pow2 e = (if 0 \<le> e then 2 ^ nat e else 1 / 2 ^ nat (- e))"

definition pow10 :: "int \<Rightarrow> real" where
  "pow10 e = (if 0 \<le> e then 10 ^ nat e else 1 / 10 ^ nat (- e))"

text \<open>The number of digits of a positive integer \<open>n\<close> in base \<open>b\<close>; 0 for \<open>n \<le> 0\<close>.\<close>

function ndigits :: "int \<Rightarrow> int \<Rightarrow> int" where
  "ndigits b n = (if n \<le> 0 \<or> b \<le> 1 then 0 else 1 + ndigits b (n div b))"
  by pat_completeness auto
termination
  by (relation "measure (\<lambda>(b, n). nat n)") (auto intro: int_div_less_self)

declare ndigits.simps [simp del]

text \<open>\<open>ilog b a\<close> is \<open>\<lfloor>log\<^sub>b a\<rfloor>\<close> for a positive \<open>a\<close> and base \<open>b\<close> (2 or 10).\<close>

definition ilog :: "int \<Rightarrow> real \<Rightarrow> int" where
  "ilog b a = (if 1 \<le> a then ndigits b \<lfloor>a\<rfloor> - 1 else - ndigits b (\<lceil>1 / a\<rceil> - 1))"

definition round_half_even :: "real \<Rightarrow> int" where
  "round_half_even x = (let f = \<lfloor>x\<rfloor>; d = x - of_int f in
     if d < 1 / 2 then f else if 1 / 2 < d then f + 1 else if even f then f else f + 1)"

text \<open>
  The nearest binary64 magnitude of a positive number, ties to even, with gradual
  underflow; \<open>None\<close> when the rounded value does not fit (it would be \<open>2^1024\<close>).
\<close>

definition round_mag :: "real \<Rightarrow> real option" where
  "round_mag a = (let e = max (ilog 2 a) (- 1022); q = pow2 (e - 52);
                      r = of_int (round_half_even (a / q)) * q
                  in if pow2 1024 \<le> r then None else Some r)"

definition to_double :: "bool \<Rightarrow> real \<Rightarrow> pyfloat" where
  "to_double neg a =
     (if a = 0 then (if neg then NegZero else Fin 0)
      else case round_mag a of
             None \<Rightarrow> (if neg then NInf else PInf)
           | Some r \<Rightarrow> if r = 0 then (if neg then NegZero else Fin 0)
                       else Fin (if neg then - r else r))"

subsection \<open>Characters and strings\<close>

definition is_digit :: "char \<Rightarrow> bool" where
  "is_digit c = (48 \<le> (of_char c :: nat) \<and> (of_char c :: nat) \<le> 57)"

definition digit_val :: "char \<Rightarrow> int" where
  "digit_val c = of_char c - 48"

definition digit_char :: "nat \<Rightarrow> char" where
  "digit_char d = char_of (48 + d)"

text \<open>\<open>str.isspace\<close> on code points below 256; \<open>str.strip()\<close> removes these at both ends.\<close>

definition is_space :: "char \<Rightarrow> bool" where
  "is_space c = ((of_char c :: nat) \<in> {9, 10, 11, 12, 13, 28, 29, 30, 31, 32, 133, 160})"

text \<open>The whitespace that \<open>float(str)\<close> skips: the four separators 28 to 31 are not part of it.\<close>

definition is_float_space :: "char \<Rightarrow> bool" where
  "is_float_space c = ((of_char c :: nat) \<in> {9, 10, 11, 12, 13, 32, 133, 160})"

definition strip_with :: "(char \<Rightarrow> bool) \<Rightarrow> string \<Rightarrow> string" where
  "strip_with sp s = rev (dropWhile sp (rev (dropWhile sp s)))"

definition py_strip :: "string \<Rightarrow> string" where
  "py_strip s = strip_with is_space s"

definition lower_char :: "char \<Rightarrow> char" where
  "lower_char c = (let n = (of_char c :: nat) in
     if (65 \<le> n \<and> n \<le> 90) \<or> (192 \<le> n \<and> n \<le> 222 \<and> n \<noteq> 215) then char_of (n + 32) else c)"

definition py_lower :: "string \<Rightarrow> string" where
  "py_lower s = map lower_char s"

text \<open>
  \<open>str.upper()\<close>: the sharp s becomes \<open>SS\<close>; the micro sign and the y with diaeresis have
  upper-case forms above code point 255 and are left as they are here.
\<close>

definition upper_char :: "char \<Rightarrow> string" where
  "upper_char c = (let n = (of_char c :: nat) in
     if (97 \<le> n \<and> n \<le> 122) \<or> (224 \<le> n \<and> n \<le> 254 \<and> n \<noteq> 247) then [char_of (n - 32)]
     else if n = 223 then ''SS'' else [c])"

definition py_upper :: "string \<Rightarrow> string" where
  "py_upper s = concat (map upper_char s)"

text \<open>\<open>sub in s\<close> on strings.\<close>

fun contains :: "string \<Rightarrow> string \<Rightarrow> bool" where
  "contains sub [] = (sub = [])"
| "contains sub (c # cs) = (take (length sub) (c # cs) = sub \<or> contains sub cs)"

text \<open>\<open>s.replace(",", "")\<close>.\<close>

definition remove_commas :: "string \<Rightarrow> string" where
  "remove_commas s = filter (\<lambda>c. c \<noteq> CHR '','') s"

text \<open>The decimal digits of a non-negative integer.\<close>

function show_nat :: "int \<Rightarrow> string" where
  "show_nat n = (if n < 10 then [digit_char (nat n)]
                 else show_nat (n div 10) @ [digit_char (nat (n mod 10))])"
  by pat_completeness auto
termination
  by (relation "measure nat") auto

declare show_nat.simps [simp del]

definition show_int :: "int \<Rightarrow> string" where
  "show_int i = (if i < 0 then CHR ''-'' # show_nat (- i) else show_nat i)"

subsection \<open>\<open>float(x)\<close>\<close>

text \<open>
  A maximal run of digits in which single underscores may stand between two digits,
  returned with the rest of the string.
\<close>

fun digits_us :: "string \<Rightarrow> string \<times> string" where
  "digits_us [] = ([], [])"
| "digits_us (c # r) =
     (if \<not> is_digit c then ([], c # r)
      else let (ds, r') = (case r of
                 u # d # r2 \<Rightarrow> if u = CHR ''_'' \<and> is_digit d then digits_us (d # r2) else digits_us r
               | _ \<Rightarrow> digits_us r)
           in (c # ds, r'))"

definition int_of_digits :: "string \<Rightarrow> int" where
  "int_of_digits ds = foldl (\<lambda>n c. 10 * n + digit_val c) 0 ds"

text \<open>The sign prefix of a numeric string: whether it is negative, and the rest.\<close>

definition take_sign :: "string \<Rightarrow> bool \<times> string" where
  "take_sign s = (case s of
      c # r \<Rightarrow> if c = CHR ''-'' then (True, r) else if c = CHR ''+'' then (False, r) else (False, s)
    | [] \<Rightarrow> (False, s))"

text \<open>
  The decimal part of the grammar of \<open>float(str)\<close>: digits, an optional fraction, an
  optional exponent, nothing after. The result is the exact number written.
\<close>

definition parse_decimal :: "string \<Rightarrow> real option" where
  "parse_decimal s =
     (let (ip, r1) = digits_us s;
          (fp, r2) = (case r1 of c # t \<Rightarrow> if c = CHR ''.'' then digits_us t else ([], r1)
                               | [] \<Rightarrow> ([], r1))
      in if ip = [] \<and> fp = [] then None
         else let m = of_int (int_of_digits (ip @ fp)); k = int (length fp)
              in case r2 of
                   [] \<Rightarrow> Some (m * pow10 (- k))
                 | c # t \<Rightarrow>
                     if c = CHR ''e'' \<or> c = CHR ''E'' then
                       (let (eneg, t1) = take_sign t; (ep, r3) = digits_us t1
                        in if ep = [] \<or> r3 \<noteq> [] then None
                           else let x = int_of_digits ep
                                in Some (m * pow10 ((if eneg then - x else x) - k)))
                     else None)"

definition float_of_str :: "string \<Rightarrow> exn + pyfloat" where
  "float_of_str s =
     (let (neg, body) = take_sign (strip_with is_float_space s); w = py_lower body
      in if w = ''inf'' \<or> w = ''infinity'' then Inr (if neg then NInf else PInf)
         else if w = ''nan'' then Inr NaN
         else case parse_decimal body of
                None \<Rightarrow> Inl ValueError
              | Some a \<Rightarrow> Inr (to_double neg a))"

definition float_of_int :: "int \<Rightarrow> exn + pyfloat" where
  "float_of_int i =
     (if i = 0 then Inr (Fin 0)
      else case round_mag (of_int \<bar>i\<bar>) of
             None \<Rightarrow> Inl OverflowError
           | Some r \<Rightarrow> Inr (Fin (if i < 0 then - r else r)))"

fun py_float :: "atom \<Rightarrow> exn + pyfloat" where
  "py_float ANone = Inl TypeError"
| "py_float (ABool b) = Inr (Fin (if b then 1 else 0))"
| "py_float (AInt i) = float_of_int i"
| "py_float (AFloat f) = Inr f"
| "py_float (AStr s) = float_of_str s"

subsection \<open>\<open>int(x)\<close>, \<open>str(x)\<close> and float formatting\<close>

text \<open>\<open>int(f)\<close> truncates towards zero; it raises on the infinities and on NaN.\<close>

fun int_of_float :: "pyfloat \<Rightarrow> exn + int" where
  "int_of_float (Fin q) = Inr (if 0 \<le> q then \<lfloor>q\<rfloor> else \<lceil>q\<rceil>)"
| "int_of_float NegZero = Inr 0"
| "int_of_float PInf = Inl OverflowError"
| "int_of_float NInf = Inl OverflowError"
| "int_of_float NaN = Inl ValueError"

fun first_some :: "('a \<Rightarrow> 'b option) \<Rightarrow> 'a list \<Rightarrow> 'b option" where
  "first_some f [] = None"
| "first_some f (x # xs) = (case f x of Some y \<Rightarrow> Some y | None \<Rightarrow> first_some f xs)"

definition strip_zeros :: "string \<Rightarrow> string" where
  "strip_zeros ds = rev (dropWhile (\<lambda>c. c = CHR ''0'') (rev ds))"

text \<open>
  The digits and the position of the decimal point of the decimal \<open>m * 10^x\<close>
  (\<open>0.d\<^sub>1d\<^sub>2\<dots> * 10^decpt\<close>), trailing zeros removed.
\<close>

definition digits_decpt :: "int \<Rightarrow> int \<Rightarrow> string \<times> int" where
  "digits_decpt m x = (let ds = show_nat m in (strip_zeros ds, int (length ds) + x))"

text \<open>
  The decimals with \<open>n\<close> significant digits next to \<open>a\<close> on both sides; the one that reads
  back as \<open>a\<close> is taken. When both do, it is the nearer of the two, and on an exact tie
  the one whose last digit is even.
\<close>

definition try_prec :: "real \<Rightarrow> int \<Rightarrow> int \<Rightarrow> (string \<times> int) option" where
  "try_prec a k n =
     (let sc = pow10 (k - n); lo = \<lfloor>a / sc\<rfloor>; hi = lo + 1;
          glo = (round_mag (of_int lo * sc) = Some a);
          ghi = (round_mag (of_int hi * sc) = Some a);
          dl = a - of_int lo * sc; dh = of_int hi * sc - a
      in if glo \<and> ghi then
           Some (digits_decpt (if dl < dh \<or> (dl = dh \<and> even lo) then lo else hi) (k - n))
         else if glo then Some (digits_decpt lo (k - n))
         else if ghi then Some (digits_decpt hi (k - n))
         else None)"

text \<open>
  The shortest decimal that reads back as the float, as \<open>repr\<close> finds it: at most 17
  digits are needed for a binary64 value.
\<close>

definition repr_digits :: "real \<Rightarrow> string \<times> int" where
  "repr_digits a =
     (let k = ilog 10 a + 1
      in case first_some (try_prec a k) [1, 2, 3, 4, 5, 6, 7, 8, 9, 10, 11, 12, 13, 14, 15, 16, 17] of
           Some r \<Rightarrow> r
         | None \<Rightarrow> digits_decpt (round_half_even (a / pow10 (k - 17))) (k - 17))"

definition repr_pos :: "real \<Rightarrow> string" where
  "repr_pos a =
     (let (ds, decpt) = repr_digits a; n = int (length ds)
      in if decpt \<le> - 4 \<or> 16 < decpt then
           (let x = decpt - 1; xs = show_nat \<bar>x\<bar>
            in take 1 ds @ (if 1 < n then CHR ''.'' # drop 1 ds else [])
               @ [CHR ''e'', if x < 0 then CHR ''-'' else CHR ''+'']
               @ (if length xs < 2 then CHR ''0'' # xs else xs))
         else if decpt \<le> 0 then ''0.'' @ replicate (nat (- decpt)) (CHR ''0'') @ ds
         else if decpt < n then take (nat decpt) ds @ CHR ''.'' # drop (nat decpt) ds
         else ds @ replicate (nat (decpt - n)) (CHR ''0'') @ ''.0'')"

fun float_repr :: "pyfloat \<Rightarrow> string" where
  "float_repr (Fin q) = (if q = 0 then ''0.0'' else if q < 0 then CHR ''-'' # repr_pos (- q) else repr_pos q)"
| "float_repr NegZero = ''-0.0''"
| "float_repr PInf = ''inf''"
| "float_repr NInf = ''-inf''"
| "float_repr NaN = ''nan''"

text \<open>\<open>f"{x:.2f}"\<close>: the exact value rounded to two decimals, ties to even.\<close>

definition fixed2_pos :: "real \<Rightarrow> string" where
  "fixed2_pos a = (let n = round_half_even (a * 100)
     in show_nat (n div 100) @ [CHR ''.'', digit_char (nat (n mod 100 div 10)), digit_char (nat (n mod 10))])"

fun format_2f :: "pyfloat \<Rightarrow> string" where
  "format_2f (Fin q) = (if q < 0 then CHR ''-'' # fixed2_pos (- q) else fixed2_pos q)"
| "format_2f NegZero = ''-0.00''"
| "format_2f PInf = ''inf''"
| "format_2f NInf = ''-inf''"
| "format_2f NaN = ''nan''"

text \<open>\<open>x / d\<close> for a float \<open>x\<close> and a positive finite constant \<open>d\<close>.\<close>

fun float_div_const :: "pyfloat \<Rightarrow> real \<Rightarrow> pyfloat" where
  "float_div_const (Fin q) d = to_double (q < 0) (\<bar>q\<bar> / d)"
| "float_div_const f d = f"

fun py_str :: "atom \<Rightarrow> string" where
  "py_str ANone = ''None''"
| "py_str (ABool b) = (if b then ''True'' else ''False'')"
| "py_str (AInt i) = show_int i"
| "py_str (AFloat f) = float_repr f"
| "py_str (AStr s) = s"

text \<open>Truth value of a scalar, as \<open>if x:\<close> and \<open>x or y\<close> take it.\<close>

fun py_truthy :: "atom \<Rightarrow> bool" where
  "py_truthy ANone = False"
| "py_truthy (ABool b) = b"
| "py_truthy (AInt i) = (i \<noteq> 0)"
| "py_truthy (AFloat f) = (f \<noteq> Fin 0 \<and> f \<noteq> NegZero)"
| "py_truthy (AStr s) = (s \<noteq> [])"

section \<open>Value coercion\<close>

subsection \<open>state\_report\_etl.py\<close>

text \<open>
  \<^verbatim>\<open>
  def safe_float(value, default: float = 0.0) -> float:
      if value is None or value == "" or str(value).lower() in ["none", "nan", ""]:
          return default
      try:
          return float(value)
      except (ValueError, TypeError):
          return default
  \<close>
  An \<open>OverflowError\<close> (an integer cell too large for a float) is not caught.
\<close>

definition sr_safe_float :: "atom \<Rightarrow> pyfloat \<Rightarrow> exn + pyfloat" where
  "sr_safe_float v dflt =
     (if v = ANone \<or> v = AStr [] \<or> py_lower (py_str v) \<in> set [''none'', ''nan'', []]
      then Inr dflt
      else case py_float v of
             Inr f \<Rightarrow> Inr f
           | Inl ValueError \<Rightarrow> Inr dflt
           | Inl TypeError \<Rightarrow> Inr dflt
           | Inl e \<Rightarrow> Inl e)"

text \<open>
  \<^verbatim>\<open>
  def safe_str(value) -> Optional[str]:
      if value is None or value == "" or str(value).lower() == "none":
          return None
      return str(value).strip()
  \<close>
\<close>

definition sr_safe_str :: "atom \<Rightarrow> string option" where
  "sr_safe_str v =
     (if v = ANone \<or> v = AStr [] \<or> py_lower (py_str v) = ''none'' then None
      else Some (py_strip (py_str v)))"

subsection \<open>central\_annexure\_attribute\_etl.py\<close>

text \<open>
  \<^verbatim>\<open>
  def safe_float(value, default=0.0):
      if value is None:
          return default
      if isinstance(value, (int, float)):
          return float(value)
      try:
          cleaned = str(value).strip().replace(",", "")
          if cleaned in ("", "-", "NA", "N/A", "NR", "--"):
              return default
          return float(cleaned)
      except (ValueError, TypeError):
          return default
  \<close>
\<close>

definition missing_tokens :: "string list" where
  "missing_tokens = [[], ''-'', ''NA'', ''N/A'', ''NR'', ''--'']"

fun ca_safe_float :: "atom \<Rightarrow> pyfloat \<Rightarrow> exn + pyfloat" where
  "ca_safe_float ANone dflt = Inr dflt"
| "ca_safe_float (AStr s) dflt =
     (let cleaned = remove_commas (py_strip s)
      in if cleaned \<in> set missing_tokens then Inr dflt
         else case float_of_str cleaned of
                Inr f \<Rightarrow> Inr f
              | Inl ValueError \<Rightarrow> Inr dflt
              | Inl TypeError \<Rightarrow> Inr dflt
              | Inl e \<Rightarrow> Inl e)"
| "ca_safe_float v dflt = py_float v"

text \<open>
  \<^verbatim>\<open>
  def safe_str(value, default=""):
      if value is None:
          return default
      return str(value).strip()
  \<close>
\<close>

definition ca_safe_str :: "atom \<Rightarrow> string \<Rightarrow> string" where
  "ca_safe_str v dflt = (if v = ANone then dflt else py_strip (py_str v))"

section \<open>Records\<close>

text \<open>
  A decoded record is a Python \<open>dict\<close> of scalars and nested dicts, kept as an association
  list in insertion order (the order in which it is written to JSON).
\<close>

datatype pyval = Atom atom | Dict "(string \<times> pyval) list" | List "pyval list"

definition ebind :: "exn + 'a \<Rightarrow> ('a \<Rightarrow> exn + 'b) \<Rightarrow> exn + 'b" where
  "ebind m f = (case m of Inl e \<Rightarrow> Inl e | Inr x \<Rightarrow> f x)"

text \<open>
  A dict display \<open>{k1: e1, k2: e2, ...}\<close>: the values are evaluated from first to last, and
  the first exception ends the evaluation.
\<close>

fun eval_items :: "(string \<times> (exn + pyval)) list \<Rightarrow> exn + (string \<times> pyval) list" where
  "eval_items [] = Inr []"
| "eval_items ((k, m) # rest) =
     ebind m (\<lambda>v. ebind (eval_items rest) (\<lambda>vs. Inr ((k, v) # vs)))"

definition dict_of :: "(string \<times> (exn + pyval)) list \<Rightarrow> exn + pyval" where
  "dict_of items = ebind (eval_items items) (\<lambda>kvs. Inr (Dict kvs))"

text \<open>\<open>d.get(k)\<close> on a value: \<open>None\<close> when the key is absent.\<close>

fun dict_get :: "pyval \<Rightarrow> string \<Rightarrow> pyval" where
  "dict_get (Dict kvs) k = (case map_of kvs k of Some v \<Rightarrow> v | None \<Rightarrow> Atom ANone)"
| "dict_get v k = Atom ANone"

definition float_val :: "pyfloat \<Rightarrow> pyval" where
  "float_val f = Atom (AFloat f)"

definition opt_str_val :: "string option \<Rightarrow> pyval" where
  "opt_str_val so = (case so of None \<Rightarrow> Atom ANone | Some s \<Rightarrow> Atom (AStr s))"

section \<open>The state report decoder (state\_report\_etl.py)\<close>

type_synonym row = "atom list"

text \<open>\<open>safe_float(row[i]) if i < len(row) else 0.0\<close>\<close>

definition float_at :: "row \<Rightarrow> nat \<Rightarrow> exn + pyval" where
  "float_at row i =
     (if i < length row then ebind (sr_safe_float (row ! i) (Fin 0)) (\<lambda>f. Inr (float_val f))
      else Inr (float_val (Fin 0)))"

text \<open>\<open>safe_str(row[i]) if len(row) > i else None\<close>\<close>

definition str_at :: "row \<Rightarrow> nat \<Rightarrow> exn + pyval" where
  "str_at row i = (if i < length row then Inr (opt_str_val (sr_safe_str (row ! i))) else Inr (Atom ANone))"

definition get_cnc_pq :: "row \<Rightarrow> nat \<Rightarrow> exn + pyval" where
  "get_cnc_pq row start = dict_of
     [(''contaminated'', float_at row start),
      (''non_contaminated'', float_at row (start + 1)),
      (''poor_quality'', float_at row (start + 2)),
      (''total'', float_at row (start + 3))]"

definition get_fresh_saline :: "row \<Rightarrow> nat \<Rightarrow> exn + pyval" where
  "get_fresh_saline row start = dict_of
     [(''fresh'', float_at row start),
      (''saline'', float_at row (start + 1))]"

text \<open>
  The serial number check at the head of \<open>parse_row_to_record\<close>:
  \<^verbatim>\<open>
  try:
      serial = float(row[0]) if row[0] else None
      if serial is None:
          return None
  except (ValueError, TypeError):
      return None
  \<close>
  \<open>Inr None\<close> is the early \<open>return None\<close>; an \<open>OverflowError\<close> is not caught.
\<close>

definition serial_of :: "atom \<Rightarrow> exn + pyfloat option" where
  "serial_of c =
     (if \<not> py_truthy c then Inr None
      else case py_float c of
             Inr f \<Rightarrow> Inr (Some f)
           | Inl ValueError \<Rightarrow> Inr None
           | Inl TypeError \<Rightarrow> Inr None
           | Inl e \<Rightarrow> Inl e)"

text \<open>\<open>int(serial) if serial else None\<close>\<close>

definition serial_no_of :: "pyfloat \<Rightarrow> exn + pyval" where
  "serial_no_of serial =
     (if py_truthy (AFloat serial) then ebind (int_of_float serial) (\<lambda>i. Inr (Atom (AInt i)))
      else Inr (Atom ANone))"

text \<open>
  The record built by \<open>parse_row_to_record\<close>, key by key as the source lists them.
  \<open>row\<close> has at least ten cells here.
\<close>

definition build_record :: "row \<Rightarrow> pyfloat \<Rightarrow> string \<Rightarrow> string \<Rightarrow> exn + pyval" where
  "build_record row serial state_name year = dict_of
     [(''serial_no'', serial_no_of serial),
      (''state'', Inr (Atom (AStr (case sr_safe_str (row ! 1) of
                                      Some s \<Rightarrow> if s \<noteq> [] then s else state_name
                                    | None \<Rightarrow> state_name)))),
      (''district'', Inr (opt_str_val (sr_safe_str (row ! 2)))),
      (''assessment_unit'', Inr (opt_str_val (sr_safe_str (row ! 3)))),
      (''watershed_district'', Inr (opt_str_val (sr_safe_str (row ! 4)))),
      (''year'', Inr (Atom (AStr year))),
      (''rainfall_mm'', get_cnc_pq row 5),
      (''geographical_area_ha'', dict_of
         [(''recharge_worthy'', get_cnc_pq row 9),
          (''hilly_area'', float_at row 13),
          (''total'', float_at row 14)]),
      (''ground_water_recharge_ham'', dict_of
         [(''rainfall_recharge'', get_cnc_pq row 15),
          (''canals'', get_cnc_pq row 19),
          (''surface_water_irrigation'', get_cnc_pq row 23),
          (''ground_water_irrigation'', get_cnc_pq row 27),
          (''tanks_and_ponds'', get_cnc_pq row 31),
          (''water_conservation_structure'', get_cnc_pq row 35),
          (''pipelines'', get_cnc_pq row 39),
          (''sewages_flash_flood_channels'', get_cnc_pq row 43),
          (''subtotal'', dict_of
             [(''contaminated'', float_at row 47),
              (''non_contaminated'', float_at row 48),
              (''poor_quality'', float_at row 49),
              (''total'', float_at row 50)])]),
      (''inflows_outflows_ham'', dict_of
         [(''base_flow'', get_cnc_pq row 51),
          (''stream_recharges'', get_cnc_pq row 55),
          (''lateral_flows'', get_cnc_pq row 59),
          (''vertical_flows'', get_cnc_pq row 63),
          (''evaporation'', get_cnc_pq row 67),
          (''transpiration'', get_cnc_pq row 71),
          (''evapotranspiration'', get_cnc_pq row 75),
          (''subtotal'', dict_of
             [(''contaminated'', float_at row 79),
              (''non_contaminated'', float_at row 80),
              (''poor_quality'', float_at row 81),
              (''total'', float_at row 82)])]),
      (''annual_gw_recharge_ham'', get_cnc_pq row 83),
      (''environmental_flows_ham'', get_cnc_pq row 87),
      (''annual_extractable_gw_resource_ham'', get_cnc_pq row 91),
      (''gw_extraction_ham'', dict_of
         [(''domestic'', get_cnc_pq row 95),
          (''industrial'', get_cnc_pq row 99),
          (''irrigation'', get_cnc_pq row 103),
          (''total'', dict_of
             [(''contaminated'', float_at row 107),
              (''non_contaminated'', float_at row 108),
              (''poor_quality'', float_at row 109),
              (''total'', float_at row 110)])]),
      (''stage_of_extraction_percent'', get_cnc_pq row 111),
      (''categorization'', dict_of
         [(''contaminated'', str_at row 115),
          (''non_contaminated'', str_at row 116),
          (''poor_quality'', str_at row 117),
          (''overall'', str_at row 118)]),
      (''gw_trends'', dict_of
         [(''pre_monsoon'', dict_of
             [(''contaminated'', str_at row 119),
              (''non_contaminated'', str_at row 120)]),
          (''post_monsoon'', dict_of
             [(''contaminated'', str_at row 121),
              (''non_contaminated'', str_at row 122)])]),
      (''allocation_domestic_2025_ham'', get_cnc_pq row 123),
      (''net_annual_gw_availability_ham'', get_cnc_pq row 127),
      (''quality_tagging'', dict_of
         [(''major_parameter'', dict_of
             [(''contaminated'', str_at row 131),
              (''non_contaminated'', str_at row 132),
              (''poor_quality'', str_at row 133)]),
          (''other_parameters'', dict_of
             [(''contaminated'', str_at row 134),
              (''non_contaminated'', str_at row 135),
              (''poor_quality'', str_at row 136)])]),
      (''additional_potential_resources_ham'', dict_of
         [(''waterlogged_shallow_water_table'', float_at row 137),
          (''flood_prone'', float_at row 138),
          (''spring_discharge'', float_at row 139)]),
      (''coastal_areas'', get_cnc_pq row 140),
      (''in_storage_unconfined_gw_ham'', get_fresh_saline row 144),
      (''total_gw_availability_unconfined_ham'', get_fresh_saline row 146),
      (''dynamic_confined_gw_ham'', get_fresh_saline row 148),
      (''in_storage_confined_gw_ham'', get_fresh_saline row 150),
      (''total_confined_gw_ham'', get_fresh_saline row 152),
      (''dynamic_semi_confined_gw_ham'', get_fresh_saline row 154),
      (''in_storage_semi_confined_gw_ham'', get_fresh_saline row 156),
      (''total_semi_confined_gw_ham'', get_fresh_saline row 158),
      (''total_gw_availability_ham'', get_fresh_saline row 160)]"

text \<open>
  \<open>parse_row_to_record(row, state_name, year)\<close>: \<open>Inr None\<close> is the Python result \<open>None\<close>,
  \<open>Inr (Some d)\<close> the record, \<open>Inl e\<close> an exception that leaves the function.
\<close>

definition parse_row_to_record :: "row \<Rightarrow> string \<Rightarrow> string \<Rightarrow> exn + pyval option" where
  "parse_row_to_record row state_name year =
     (if length row < 10 then Inr None
      else ebind (serial_of (row ! 0)) (\<lambda>serial.
        case serial of
          None \<Rightarrow> Inr None
        | Some f \<Rightarrow>
            if sr_safe_str (row ! 0) = Some ''Total'' then Inr None
            else ebind (build_record row f state_name year) (\<lambda>d. Inr (Some d))))"

text \<open>
  The loop of \<open>extract_state_report\<close> over the rows of the sheet from row 12 on:
  \<^verbatim>\<open>
  record = parse_row_to_record(row, state, year)
  if record and record.get("district"):
      records.append(record)
  \<close>
\<close>

fun pyval_truthy :: "pyval \<Rightarrow> bool" where
  "pyval_truthy (Atom a) = py_truthy a"
| "pyval_truthy (Dict kvs) = (kvs \<noteq> [])"
| "pyval_truthy (List xs) = (xs \<noteq> [])"

fun extract_state_report :: "row list \<Rightarrow> string \<Rightarrow> string \<Rightarrow> exn + pyval list" where
  "extract_state_report [] state year = Inr []"
| "extract_state_report (row # rows) state year =
     ebind (parse_row_to_record row state year) (\<lambda>record.
       ebind (extract_state_report rows state year) (\<lambda>records.
         case record of
           Some d \<Rightarrow> if pyval_truthy d \<and> pyval_truthy (dict_get d ''district'')
                      then Inr (d # records) else Inr records
         | None \<Rightarrow> Inr records))"

text \<open>The characters of a rendered number: digits, the point, the exponent mark, the signs.\<close>

definition num_char :: "char \<Rightarrow> bool" where
  "num_char c = (is_digit c \<or> c = CHR ''.'' \<or> c = CHR ''e'' \<or> c = CHR ''+'' \<or> c = CHR ''-'')"

section \<open>More of \<open>str\<close>\<close>

text \<open>\<open>sep.join(parts)\<close>\<close>

fun join :: "string \<Rightarrow> string list \<Rightarrow> string" where
  "join sep [] = []"
| "join sep [p] = p"
| "join sep (p # q # ps) = p @ sep @ join sep (q # ps)"

text \<open>The upper-case and the lower-case letters among the code points below 256.\<close>

definition is_upper_c :: "char \<Rightarrow> bool" where
  "is_upper_c c = (let n = (of_char c :: nat) in
     (65 \<le> n \<and> n \<le> 90) \<or> (192 \<le> n \<and> n \<le> 222 \<and> n \<noteq> 215))"

definition is_lower_c :: "char \<Rightarrow> bool" where
  "is_lower_c c = (let n = (of_char c :: nat) in
     (97 \<le> n \<and> n \<le> 122) \<or> n = 170 \<or> n = 181 \<or> n = 186 \<or> (223 \<le> n \<and> n \<le> 255 \<and> n \<noteq> 247))"

text \<open>\<open>s.isupper()\<close>: some upper-case letter and no lower-case one.\<close>

definition py_isupper :: "string \<Rightarrow> bool" where
  "py_isupper s = (list_ex is_upper_c s \<and> \<not> list_ex is_lower_c s)"

text \<open>
  \<open>s.title()\<close>: a letter after a letter is lower-cased, any other letter is upper-cased
  (the sharp s to \<open>Ss\<close>).
\<close>

definition title_char :: "char \<Rightarrow> string" where
  "title_char c = (if (of_char c :: nat) = 223 then ''Ss'' else upper_char c)"

fun title_from :: "bool \<Rightarrow> string \<Rightarrow> string" where
  "title_from prev [] = []"
| "title_from prev (c # cs) =
     (if prev then [lower_char c] else title_char c) @ title_from (is_upper_c c \<or> is_lower_c c) cs"

definition py_title :: "string \<Rightarrow> string" where
  "py_title s = title_from False s"

text \<open>\<open>s.isdigit()\<close>: not empty, and digits only (the superscripts 1, 2, 3 count).\<close>

definition is_pydigit :: "char \<Rightarrow> bool" where
  "is_pydigit c = (is_digit c \<or> (of_char c :: nat) \<in> {178, 179, 185})"

definition py_isdigit :: "string \<Rightarrow> bool" where
  "py_isdigit s = (s \<noteq> [] \<and> list_all is_pydigit s)"

text \<open>\<open>s.replace(c, "")\<close> for a single character \<open>c\<close>.\<close>

definition remove_char :: "char \<Rightarrow> string \<Rightarrow> string" where
  "remove_char x s = filter (\<lambda>c. c \<noteq> x) s"

subsection \<open>\<open>repr\<close> and \<open>str\<close> of a value\<close>

definition hex_digit :: "nat \<Rightarrow> char" where
  "hex_digit n = (if n < 10 then char_of (48 + n) else char_of (87 + n))"

definition hex_byte :: "nat \<Rightarrow> string" where
  "hex_byte b = [hex_digit (b div 16), hex_digit (b mod 16)]"

definition is_printable :: "char \<Rightarrow> bool" where
  "is_printable c = (let n = (of_char c :: nat) in
     \<not> (n < 32 \<or> (127 \<le> n \<and> n \<le> 160) \<or> n = 173))"

definition repr_char :: "char \<Rightarrow> char \<Rightarrow> string" where
  "repr_char quote c =
     (if c = CHR 0x5C then [CHR 0x5C, CHR 0x5C]
      else if c = quote then [CHR 0x5C, c]
      else if c = CHR 0x09 then [CHR 0x5C, CHR ''t'']
      else if c = CHR 0x0A then [CHR 0x5C, CHR ''n'']
      else if c = CHR 0x0D then [CHR 0x5C, CHR ''r'']
      else if \<not> is_printable c then [CHR 0x5C, CHR ''x''] @ hex_byte (of_char c)
      else [c])"

definition repr_str :: "string \<Rightarrow> string" where
  "repr_str s =
     (let quote = (if CHR 0x27 \<in> set s \<and> CHR 0x22 \<notin> set s then CHR 0x22 else CHR 0x27)
      in quote # concat (map (repr_char quote) s) @ [quote])"

fun py_repr :: "pyval \<Rightarrow> string" where
  "py_repr (Atom (AStr s)) = repr_str s"
| "py_repr (Atom a) = py_str a"
| "py_repr (Dict kvs) =
     ''{'' @ join '', '' (map (\<lambda>kv. repr_str (fst kv) @ '': '' @ py_repr (snd kv)) kvs) @ ''}''"
| "py_repr (List xs) = ''['' @ join '', '' (map py_repr xs) @ '']''"

text \<open>\<open>str(v)\<close>, which is also what an f-string writes for \<open>{v}\<close>.\<close>

fun pyval_str :: "pyval \<Rightarrow> string" where
  "pyval_str (Atom a) = py_str a"
| "pyval_str v = py_repr v"

fun is_str :: "pyval \<Rightarrow> bool" where
  "is_str (Atom (AStr s)) = True"
| "is_str v = False"

text \<open>\<open>isinstance(v, (int, float))\<close>; a \<open>bool\<close> is an \<open>int\<close>.\<close>

fun is_number :: "pyval \<Rightarrow> bool" where
  "is_number (Atom (ABool b)) = True"
| "is_number (Atom (AInt i)) = True"
| "is_number (Atom (AFloat f)) = True"
| "is_number v = False"

text \<open>\<open>v == 0\<close> for a number \<open>v\<close>.\<close>

fun is_zero :: "pyval \<Rightarrow> bool" where
  "is_zero (Atom (ABool b)) = (\<not> b)"
| "is_zero (Atom (AInt i)) = (i = 0)"
| "is_zero (Atom (AFloat f)) = (f = Fin 0 \<or> f = NegZero)"
| "is_zero v = False"

text \<open>\<open>v > 0\<close>: a \<open>TypeError\<close> when \<open>v\<close> is not a number.\<close>

fun gt_zero :: "pyval \<Rightarrow> exn + bool" where
  "gt_zero (Atom (ABool b)) = Inr b"
| "gt_zero (Atom (AInt i)) = Inr (0 < i)"
| "gt_zero (Atom (AFloat (Fin q))) = Inr (0 < q)"
| "gt_zero (Atom (AFloat PInf)) = Inr True"
| "gt_zero (Atom (AFloat f)) = Inr False"
| "gt_zero v = Inl TypeError"

text \<open>\<open>f == i\<close> for a float and the integer \<open>int(f)\<close>.\<close>

fun float_eq_int :: "pyfloat \<Rightarrow> int \<Rightarrow> bool" where
  "float_eq_int (Fin q) i = (q = of_int i)"
| "float_eq_int NegZero i = (i = 0)"
| "float_eq_int f i = False"

text \<open>\<open>abs(f) >= b\<close> for a float and a positive integer bound.\<close>

fun float_abs_ge :: "pyfloat \<Rightarrow> real \<Rightarrow> bool" where
  "float_abs_ge (Fin q) b = (b \<le> \<bar>q\<bar>)"
| "float_abs_ge PInf b = True"
| "float_abs_ge NInf b = True"
| "float_abs_ge f b = False"

text \<open>\<open>obj.get(key, default)\<close> on a dict, and \<open>get_nested(obj, *keys)\<close> of both generators.\<close>

fun dict_get_default :: "pyval \<Rightarrow> string \<Rightarrow> pyval \<Rightarrow> pyval" where
  "dict_get_default (Dict kvs) k dflt = (case map_of kvs k of Some v \<Rightarrow> v | None \<Rightarrow> dflt)"
| "dict_get_default v k dflt = dflt"

fun get_nested :: "pyval \<Rightarrow> string list \<Rightarrow> pyval" where
  "get_nested obj [] = obj"
| "get_nested (Dict kvs) (k # ks) =
     (case map_of kvs k of Some v \<Rightarrow> get_nested v ks | None \<Rightarrow> Atom ANone)"
| "get_nested obj (k # ks) = Atom ANone"

text \<open>A lower-case hexadecimal digit.\<close>

definition is_hex :: "char \<Rightarrow> bool" where
  "is_hex c = (let n = (of_char c :: nat) in (48 \<le> n \<and> n \<le> 57) \<or> (97 \<le> n \<and> n \<le> 102))"

section \<open>MD5 (\<open>hashlib.md5(content.encode()).hexdigest()\<close>)\<close>

text \<open>\<open>str.encode()\<close>: UTF-8, one byte below code point 128 and two bytes from there to 255.\<close>

definition utf8_char :: "char \<Rightarrow> nat list" where
  "utf8_char c = (let n = (of_char c :: nat) in
     if n < 128 then [n] else [192 + n div 64, 128 + n mod 64])"

definition utf8_encode :: "string \<Rightarrow> nat list" where
  "utf8_encode s = concat (map utf8_char s)"

text \<open>
  Padding: the byte \<open>0x80\<close>, zero bytes up to 56 modulo 64, and the length of the
  message in bits as eight bytes, least significant first.
\<close>

definition md5_pad :: "nat list \<Rightarrow> nat list" where
  "md5_pad msg =
     (let n = length msg; bits = (8 * n) mod 2 ^ 64
      in msg @ [128] @ replicate ((119 - n mod 64) mod 64) 0
         @ map (\<lambda>i. (bits div 256 ^ i) mod 256) [0, 1, 2, 3, 4, 5, 6, 7])"

function split_blocks :: "nat list \<Rightarrow> nat list list" where
  "split_blocks bs = (if length bs < 64 then [] else take 64 bs # split_blocks (drop 64 bs))"
  by pat_completeness auto
termination
  by (relation "measure length") auto

declare split_blocks.simps [simp del]

definition word_of_bytes :: "nat list \<Rightarrow> 32 word" where
  "word_of_bytes bs = of_nat (foldr (\<lambda>b acc. b + 256 * acc) bs 0)"

definition block_words :: "nat list \<Rightarrow> 32 word list" where
  "block_words block = map (\<lambda>i. word_of_bytes (take 4 (drop (4 * i) block)))
     [0, 1, 2, 3, 4, 5, 6, 7, 8, 9, 10, 11, 12, 13, 14, 15]"

definition md5_K :: "32 word list" where
  "md5_K =
     [0xd76aa478, 0xe8c7b756, 0x242070db, 0xc1bdceee, 0xf57c0faf, 0x4787c62a, 0xa8304613, 0xfd469501,
      0x698098d8, 0x8b44f7af, 0xffff5bb1, 0x895cd7be, 0x6b901122, 0xfd987193, 0xa679438e, 0x49b40821,
      0xf61e2562, 0xc040b340, 0x265e5a51, 0xe9b6c7aa, 0xd62f105d, 0x02441453, 0xd8a1e681, 0xe7d3fbc8,
      0x21e1cde6, 0xc33707d6, 0xf4d50d87, 0x455a14ed, 0xa9e3e905, 0xfcefa3f8, 0x676f02d9, 0x8d2a4c8a,
      0xfffa3942, 0x8771f681, 0x6d9d6122, 0xfde5380c, 0xa4beea44, 0x4bdecfa9, 0xf6bb4b60, 0xbebfbc70,
      0x289b7ec6, 0xeaa127fa, 0xd4ef3085, 0x04881d05, 0xd9d4d039, 0xe6db99e5, 0x1fa27cf8, 0xc4ac5665,
      0xf4292244, 0x432aff97, 0xab9423a7, 0xfc93a039, 0x655b59c3, 0x8f0ccc92, 0xffeff47d, 0x85845dd1,
      0x6fa87e4f, 0xfe2ce6e0, 0xa3014314, 0x4e0811a1, 0xf7537e82, 0xbd3af235, 0x2ad7d2bb, 0xeb86d391]"

definition md5_s :: "nat list" where
  "md5_s =
     [7, 12, 17, 22, 7, 12, 17, 22, 7, 12, 17, 22, 7, 12, 17, 22,
      5, 9, 14, 20, 5, 9, 14, 20, 5, 9, 14, 20, 5, 9, 14, 20,
      4, 11, 16, 23, 4, 11, 16, 23, 4, 11, 16, 23, 4, 11, 16, 23,
      6, 10, 15, 21, 6, 10, 15, 21, 6, 10, 15, 21, 6, 10, 15, 21]"

definition rotl32 :: "32 word \<Rightarrow> nat \<Rightarrow> 32 word" where
  "rotl32 x n = (push_bit n x) OR (drop_bit (32 - n) x)"

type_synonym md5_state = "32 word \<times> 32 word \<times> 32 word \<times> 32 word"

definition md5_step :: "32 word list \<Rightarrow> nat \<Rightarrow> md5_state \<Rightarrow> md5_state" where
  "md5_step m i st =
     (case st of (a, b, c, d) \<Rightarrow>
        let (f, g) =
              (if i < 16 then ((b AND c) OR ((NOT b) AND d), i)
               else if i < 32 then ((d AND b) OR ((NOT d) AND c), (5 * i + 1) mod 16)
               else if i < 48 then (b XOR c XOR d, (3 * i + 5) mod 16)
               else (c XOR (b OR (NOT d)), (7 * i) mod 16));
            f' = f + a + md5_K ! i + m ! g
        in (d, b + rotl32 f' (md5_s ! i), b, c))"

definition md5_block :: "md5_state \<Rightarrow> nat list \<Rightarrow> md5_state" where
  "md5_block st block =
     (case st of (a0, b0, c0, d0) \<Rightarrow>
        case fold (md5_step (block_words block)) [0..<64] st of
          (a, b, c, d) \<Rightarrow> (a0 + a, b0 + b, c0 + c, d0 + d))"

definition md5_init :: md5_state where
  "md5_init = (0x67452301, 0xefcdab89, 0x98badcfe, 0x10325476)"

definition word_bytes :: "32 word \<Rightarrow> nat list" where
  "word_bytes w = map (\<lambda>i. (unat w div 256 ^ i) mod 256) [0, 1, 2, 3]"

definition md5 :: "nat list \<Rightarrow> nat list" where
  "md5 msg =
     (case fold (\<lambda>block st. md5_block st block) (split_blocks (md5_pad msg)) md5_init of
        (a, b, c, d) \<Rightarrow> word_bytes a @ word_bytes b @ word_bytes c @ word_bytes d)"

definition md5_hexdigest :: "string \<Rightarrow> string" where
  "md5_hexdigest s = concat (map hex_byte (md5 (utf8_encode s)))"

section \<open>The metric fact normalizer (unified\_dataset\_generator\_optimized.py)\<close>

text \<open>
  \<^verbatim>\<open>
  def generate_id(state, district, block, year, metric) -> str:
      content = f"{state}|{district}|{block}|{year}|{metric}"
      return hashlib.md5(content.encode()).hexdigest()[:12]
  \<close>
  The arguments are written with \<open>str()\<close>; they are kept as values here since the callers
  pass what the JSON holds.
\<close>

definition ud_id_content :: "pyval \<Rightarrow> pyval \<Rightarrow> pyval \<Rightarrow> pyval \<Rightarrow> pyval \<Rightarrow> string" where
  "ud_id_content state district block year metric =
     pyval_str state @ ''|'' @ pyval_str district @ ''|'' @ pyval_str block @ ''|''
     @ pyval_str year @ ''|'' @ pyval_str metric"

definition ud_generate_id :: "pyval \<Rightarrow> pyval \<Rightarrow> pyval \<Rightarrow> pyval \<Rightarrow> pyval \<Rightarrow> string" where
  "ud_generate_id state district block year metric =
     take 12 (md5_hexdigest (ud_id_content state district block year metric))"

definition ud_unit_names :: "(string \<times> string) list" where
  "ud_unit_names =
     [(''ham'', ''hectare meters''), (''bcm'', ''billion cubic meters''), (''mm'', ''millimeters''),
      (''ha'', ''hectares''), (''sq_km'', ''square kilometers''), (''percent'', ''percent''),
      (''count'', ''units''), ([], [])]"

text \<open>
  \<^verbatim>\<open>
  def clean_state_name(state):
      if not state:
          return state
      state = str(state).strip()
      if state.isupper():
          state = state.title()
      replacements = {...}
      for old, new in replacements.items():
          if state.lower() == old.lower():
              return new
      return state
  \<close>
\<close>

definition state_replacements :: "(string \<times> string) list" where
  "state_replacements =
     [(''Andman Nicobar'', ''Andaman and Nicobar Islands''),
      (''Andaman And Nicobar Islands'', ''Andaman and Nicobar Islands''),
      (''Jammu And Kashmir'', ''Jammu and Kashmir''),
      (''Jammu Kashmir'', ''Jammu and Kashmir''),
      (''Dadra And Nagar Haveli'', ''Dadra and Nagar Haveli''),
      (''Daman And Diu'', ''Daman and Diu''),
      (''Damandiu'', ''Daman and Diu''),
      (''Lakshdweep'', ''Lakshadweep''),
      (''Kerela'', ''Kerala''),
      (''Telengana'', ''Telangana''),
      (''Tamilnadu'', ''Tamil Nadu''),
      (''Arunachal'', ''Arunachal Pradesh'')]"

definition replace_state :: "string \<Rightarrow> string" where
  "replace_state name =
     (case find (\<lambda>p. py_lower name = py_lower (fst p)) state_replacements of
        Some p \<Rightarrow> snd p
      | None \<Rightarrow> name)"




text \<open>
  \<^verbatim>\<open>
  def format_value(value):
      if value is None:
          return "N/A"
      if isinstance(value, float):
          if value == int(value):
              return str(int(value))
          return f"{value:.2f}"
      return str(value)
  \<close>
\<close>

fun ud_format_value :: "pyval \<Rightarrow> exn + string" where
  "ud_format_value (Atom ANone) = Inr ''N/A''"
| "ud_format_value (Atom (AFloat f)) =
     ebind (int_of_float f) (\<lambda>i.
       if float_eq_int f i then Inr (show_int i) else Inr (format_2f f))"
| "ud_format_value v = Inr (pyval_str v)"

definition opt_truthy :: "string option \<Rightarrow> bool" where
  "opt_truthy so = (case so of None \<Rightarrow> False | Some s \<Rightarrow> s \<noteq> [])"

text \<open>\<open>x or ""\<close> for an optional string.\<close>

definition opt_or_empty :: "string option \<Rightarrow> string" where
  "opt_or_empty so = (case so of None \<Rightarrow> [] | Some s \<Rightarrow> s)"

text \<open>
  \<open>generate_text\<close>: the location, then the sentence chosen by the type of the value, the
  unit and the description, in the order of the source.
\<close>

definition ud_location :: "pyval \<Rightarrow> string option \<Rightarrow> string option \<Rightarrow> string" where
  "ud_location state district block =
     (if opt_truthy block \<and> opt_truthy district
      then opt_or_empty block @ '' block of '' @ opt_or_empty district @ '' district, '' @ pyval_str state
      else if opt_truthy district then opt_or_empty district @ '' district, '' @ pyval_str state
      else pyval_str state)"

definition generate_text ::
  "pyval \<Rightarrow> string option \<Rightarrow> string option \<Rightarrow> pyval \<Rightarrow> string \<Rightarrow> pyval \<Rightarrow> string \<Rightarrow> exn + string" where
  "generate_text state district block year metric_desc v unit =
     (let location = ud_location state district block
      in ebind (ud_format_value v) (\<lambda>value_str.
           let unit_name = (case map_of ud_unit_names unit of Some n \<Rightarrow> n | None \<Rightarrow> unit);
               head = ''In '' @ location @ '' ('' @ pyval_str year @ ''), '' @ metric_desc @ '' is ''
           in if is_str v \<and> \<not> py_isdigit (remove_char (CHR ''-'') (remove_char (CHR ''.'') (pyval_str v)))
              then Inr (head @ pyval_str v @ ''.'')
              else if contains ''count'' unit \<or> contains ''units'' (py_lower metric_desc)
              then Inr (pyval_str state @ '' has '' @ value_str @ '' '' @ metric_desc
                        @ '' as per the '' @ pyval_str year @ '' groundwater assessment.'')
              else if unit = ''percent'' then Inr (head @ value_str @ ''%.'')
              else if unit_name \<noteq> [] then Inr (head @ value_str @ '' '' @ unit_name @ ''.'')
              else Inr (head @ value_str @ ''.'')))"

record fact =
  f_id :: string
  f_state :: pyval
  f_district :: "string option"
  f_block :: "string option"
  f_year :: pyval
  f_metric :: string
  f_value :: pyval
  f_unit :: string
  f_category :: string
  f_categorization :: pyval
  f_source :: string
  f_source_type :: string
  f_text :: string

definition important_zero_metrics :: "string list" where
  "important_zero_metrics =
     [''over_exploited_count'', ''critical_count'', ''saline_count'', ''stage_of_extraction'',
      ''categorization'']"

text \<open>\<open>any(m in metric.lower() for m in important_zero_metrics)\<close>\<close>

definition keeps_zero :: "string \<Rightarrow> bool" where
  "keeps_zero metric = list_ex (\<lambda>m. contains m (py_lower metric)) important_zero_metrics"

text \<open>\<open>value is None or value == "" or (isinstance(value, str) and value.strip() == "")\<close>\<close>

fun is_blank :: "pyval \<Rightarrow> bool" where
  "is_blank (Atom ANone) = True"
| "is_blank (Atom (AStr s)) = (s = [] \<or> py_strip s = [])"
| "is_blank v = False"

text \<open>
  \<open>create_record\<close>: \<open>Inr None\<close> is the result \<open>None\<close>. The id is made from the state, the
  district or \<open>""\<close>, the block or \<open>""\<close>, the year and the metric. The text is the last entry
  of the record, and \<open>generate_text\<close> may raise.
\<close>

definition create_record ::
  "pyval \<Rightarrow> string option \<Rightarrow> string option \<Rightarrow> pyval \<Rightarrow> string \<Rightarrow> pyval \<Rightarrow> string \<Rightarrow> string \<Rightarrow> string
   \<Rightarrow> string \<Rightarrow> string \<Rightarrow> pyval \<Rightarrow> exn + fact option" where
  "create_record state district block year metric v unit category source source_type metric_desc
     categorization =
     (if is_blank v then Inr None
      else if is_number v \<and> is_zero v \<and> \<not> keeps_zero metric then Inr None
      else ebind (generate_text state district block year metric_desc v unit) (\<lambda>text.
        Inr (Some \<lparr>f_id = ud_generate_id state
                             (Atom (AStr (opt_or_empty district)))
                             (Atom (AStr (opt_or_empty block)))
                             year (Atom (AStr metric)),
                   f_state = state, f_district = district, f_block = block, f_year = year,
                   f_metric = metric, f_value = v, f_unit = unit, f_category = category,
                   f_categorization = categorization, f_source = source,
                   f_source_type = source_type, f_text = text\<rparr>)))"




text \<open>A value that is not an infinite or NaN float: the values \<open>format_value\<close> can write.\<close>

fun finite_value :: "pyval \<Rightarrow> bool" where
  "finite_value (Atom (AFloat (Fin q))) = True"
| "finite_value (Atom (AFloat NegZero)) = True"
| "finite_value (Atom (AFloat f)) = False"
| "finite_value v = True"


section \<open>The semantic chunk builder (semantic\_chunker.py)\<close>

text \<open>
  \<^verbatim>\<open>
  def generate_id(*parts) -> str:
      normalized_parts = []
      for p in parts:
          if p is None or p == "":
              normalized_parts.append("_NULL_")
          else:
              normalized_parts.append(str(p))
      content = "|".join(normalized_parts)
      return hashlib.md5(content.encode()).hexdigest()[:16]
  \<close>
\<close>

definition normalize_part :: "pyval \<Rightarrow> string" where
  "normalize_part p = (if p = Atom ANone \<or> p = Atom (AStr []) then ''_NULL_'' else pyval_str p)"

definition sc_id_content :: "pyval list \<Rightarrow> string" where
  "sc_id_content parts = join ''|'' (map normalize_part parts)"

definition sc_generate_id :: "pyval list \<Rightarrow> string" where
  "sc_generate_id parts = take 16 (md5_hexdigest (sc_id_content parts))"

text \<open>
  \<^verbatim>\<open>
  def clean_name(name, name_type="general"):
      if not name:
          return None
      name = str(name).strip()
      if not name or name.lower() in ("null", "none", ""):
          return None
      if name.isupper():
          name = name.title()
      if name_type == "state":
          ... the replacements of clean_state_name ...
      return name
  \<close>
\<close>

definition clean_name :: "pyval \<Rightarrow> string \<Rightarrow> string option" where
  "clean_name name name_type =
     (if \<not> pyval_truthy name then None
      else let s = py_strip (pyval_str name)
           in if s = [] \<or> py_lower s \<in> set [''null'', ''none'', []] then None
              else let s' = (if py_isupper s then py_title s else s)
                   in Some (if name_type = ''state'' then replace_state s' else s'))"

text \<open>
  \<^verbatim>\<open>
  def format_value(value, unit=""):
      if value is None:
          return "N/A"
      if isinstance(value, float):
          if abs(value) >= 1000000:
              return f"{value / 1000000:.2f}M"
          elif abs(value) >= 1000:
              return f"{value / 1000:.2f}K"
          elif value == int(value):
              return str(int(value))
          else:
              return f"{value:.2f}"
      return str(value)
  \<close>
\<close>

fun format_value :: "pyval \<Rightarrow> exn + string" where
  "format_value (Atom ANone) = Inr ''N/A''"
| "format_value (Atom (AFloat f)) =
     (if float_abs_ge f 1000000 then Inr (format_2f (float_div_const f 1000000) @ ''M'')
      else if float_abs_ge f 1000 then Inr (format_2f (float_div_const f 1000) @ ''K'')
      else ebind (int_of_float f) (\<lambda>i.
             if float_eq_int f i then Inr (show_int i) else Inr (format_2f f)))"
| "format_value v = Inr (pyval_str v)"

definition build_location_string :: "string \<Rightarrow> string option \<Rightarrow> string option \<Rightarrow> string" where
  "build_location_string state district block =
     (if opt_truthy block \<and> opt_truthy district
      then opt_or_empty block @ '' block in '' @ opt_or_empty district @ '' district, '' @ state
      else if opt_truthy district then opt_or_empty district @ '' district, '' @ state
      else state)"

text \<open>\<open>a or b\<close>\<close>

definition py_or :: "pyval \<Rightarrow> pyval \<Rightarrow> pyval" where
  "py_or a b = (if pyval_truthy a then a else b)"

text \<open>
  One entry of an info list: \<open>if v: info.append(f"<label>{format_value(v)}<unit>")\<close>.
  The result is the list of strings added (none or one).
\<close>

definition info_if :: "pyval \<Rightarrow> string \<Rightarrow> string \<Rightarrow> exn + string list" where
  "info_if v label unit =
     (if pyval_truthy v then ebind (format_value v) (\<lambda>s. Inr [label @ s @ unit]) else Inr [])"

text \<open>Statements that add to a list, run one after the other; the first exception ends them.\<close>

fun collect :: "(exn + string list) list \<Rightarrow> exn + string list" where
  "collect [] = Inr []"
| "collect (m # ms) = ebind m (\<lambda>xs. ebind (collect ms) (\<lambda>ys. Inr (xs @ ys)))"

text \<open>\<open>if info: text_parts.append(" | ".join(info) + ".")\<close>\<close>

definition section_of :: "string list \<Rightarrow> string list" where
  "section_of info = (if info = [] then [] else [join '' | '' info @ ''.''])"

text \<open>\<open>categorization.upper()\<close>: only a \<open>str\<close> has the method.\<close>

fun upper_of :: "pyval \<Rightarrow> exn + string" where
  "upper_of (Atom (AStr s)) = Inr (py_upper s)"
| "upper_of v = Inl AttributeError"

record chunk =
  c_id :: string
  c_state :: string
  c_district :: "string option"
  c_block :: "string option"
  c_year :: string
  c_source_type :: string
  c_source :: string
  c_categorization :: pyval
  c_text :: string
  c_metadata :: "(string \<times> pyval) list"
  c_watershed :: pyval

text \<open>The extraction entry of the resources section, with its breakdown in brackets.\<close>

definition extraction_info :: "pyval \<Rightarrow> pyval \<Rightarrow> pyval \<Rightarrow> pyval \<Rightarrow> exn + string list" where
  "extraction_info extraction_total extraction_irrigation extraction_domestic extraction_industrial =
     (if \<not> pyval_truthy extraction_total then Inr []
      else ebind (format_value extraction_total) (\<lambda>t.
        ebind (collect
                 [info_if extraction_irrigation ''irrigation '' [],
                  info_if extraction_domestic ''domestic '' [],
                  (if pyval_truthy extraction_industrial
                   then ebind (gt_zero extraction_industrial) (\<lambda>pos.
                          if pos then info_if extraction_industrial ''industrial '' [] else Inr [])
                   else Inr [])]) (\<lambda>ext_breakdown.
          Inr [''Total extraction: '' @ t @ '' ham''
               @ (if ext_breakdown \<noteq> [] then '' ('' @ join '', '' ext_breakdown @ '')'' else [])])))"

text \<open>The metadata: the entries added, in the order of the source.\<close>

definition metadata_of ::
  "pyval \<Rightarrow> pyval \<Rightarrow> pyval \<Rightarrow> pyval \<Rightarrow> pyval \<Rightarrow> pyval \<Rightarrow> pyval \<Rightarrow> (string \<times> pyval) list" where
  "metadata_of rainfall_total annual_recharge extractable extraction_total stage_of_extraction
     net_availability categorization =
     (if pyval_truthy rainfall_total then [(''rainfall_mm'', rainfall_total)] else [])
     @ (if pyval_truthy annual_recharge then [(''annual_recharge_ham'', annual_recharge)] else [])
     @ (if pyval_truthy extractable then [(''extractable_resource_ham'', extractable)] else [])
     @ (if pyval_truthy extraction_total then [(''extraction_total_ham'', extraction_total)] else [])
     @ (if stage_of_extraction \<noteq> Atom ANone
        then [(''stage_of_extraction_percent'', stage_of_extraction)] else [])
     @ (if pyval_truthy net_availability then [(''net_availability_ham'', net_availability)] else [])
     @ (if pyval_truthy categorization then [(''categorization'', categorization)] else [])"

text \<open>
  \<open>build_state_report_chunk(record, state, year, source, row_index)\<close>. \<open>Inr None\<close> is the
  result \<open>None\<close> (no block name). The text is built section by section in the order of
  the source; the first exception leaves the function.
\<close>

definition build_state_report_chunk ::
  "pyval \<Rightarrow> string \<Rightarrow> string \<Rightarrow> string \<Rightarrow> int \<Rightarrow> exn + chunk option" where
  "build_state_report_chunk rec state year source row_index =
     (let district = clean_name (dict_get rec ''district'') ''district'';
          block = clean_name (dict_get rec ''assessment_unit'') ''block'';
          watershed = dict_get_default rec ''watershed_district'' (Atom (AStr []));
          serial_no = dict_get_default rec ''serial_no'' (Atom (AInt row_index))
      in if \<not> opt_truthy block then Inr None
         else
           let cat_obj = dict_get_default rec ''categorization'' (Dict []);
               categorization =
                 (case cat_obj of
                    Dict kvs \<Rightarrow> py_or (dict_get cat_obj ''overall'') (dict_get cat_obj ''non_contaminated'')
                  | Atom (AStr s) \<Rightarrow> cat_obj
                  | _ \<Rightarrow> Atom ANone);
               rainfall_total = get_nested rec [''rainfall_mm'', ''total''];
               geo_area_total = get_nested rec [''geographical_area_ha'', ''total''];
               recharge_worthy = get_nested rec [''geographical_area_ha'', ''recharge_worthy'', ''total''];
               gw_recharge_rainfall =
                 get_nested rec [''ground_water_recharge_ham'', ''rainfall_recharge'', ''total''];
               annual_recharge = get_nested rec [''annual_gw_recharge_ham'', ''total''];
               extractable = get_nested rec [''annual_extractable_gw_resource_ham'', ''total''];
               extraction_irrigation = get_nested rec [''gw_extraction_ham'', ''irrigation'', ''total''];
               extraction_domestic = get_nested rec [''gw_extraction_ham'', ''domestic'', ''total''];
               extraction_industrial = get_nested rec [''gw_extraction_ham'', ''industrial'', ''total''];
               extraction_total = get_nested rec [''gw_extraction_ham'', ''total'', ''total''];
               stage_of_extraction = get_nested rec [''stage_of_extraction_percent'', ''total''];
               net_availability = get_nested rec [''net_annual_gw_availability_ham'', ''total''];
               trend_pre = get_nested rec [''gw_trends'', ''pre_monsoon'', ''non_contaminated''];
               trend_post = get_nested rec [''gw_trends'', ''post_monsoon'', ''non_contaminated''];
               storage_fresh = get_nested rec [''in_storage_unconfined_gw_ham'', ''fresh''];
               location = build_location_string state district block;
               header = [''**'' @ location @ '' ('' @ year @ '')**'']
                        @ (if pyval_truthy watershed
                           then [''Watershed: '' @ pyval_str watershed @ ''.''] else [])
           in ebind (collect
                [info_if rainfall_total ''Annual rainfall: '' '' mm'',
                 info_if geo_area_total ''Total area: '' '' ha'',
                 info_if recharge_worthy ''Recharge-worthy area: '' '' ha'']) (\<lambda>area_info.
              ebind (collect
                [info_if annual_recharge ''Annual groundwater recharge: '' '' ham'',
                 info_if gw_recharge_rainfall ''from rainfall: '' '' ham'']) (\<lambda>recharge_info.
              ebind (collect
                [info_if extractable ''Extractable resource: '' '' ham'',
                 extraction_info extraction_total extraction_irrigation extraction_domestic
                   extraction_industrial]) (\<lambda>resource_info.
              ebind (collect
                [if stage_of_extraction \<noteq> Atom ANone
                 then ebind (format_value stage_of_extraction)
                        (\<lambda>s. Inr [''Stage of extraction: '' @ s @ ''%''])
                 else Inr [],
                 info_if net_availability ''Net availability: '' '' ham'']) (\<lambda>status_nums.
              ebind (if pyval_truthy categorization
                     then ebind (upper_of categorization) (\<lambda>u. Inr [''Status: **'' @ u @ ''**''])
                     else Inr []) (\<lambda>status_cat.
              ebind (if pyval_truthy storage_fresh
                     then ebind (gt_zero storage_fresh) (\<lambda>pos.
                            if pos
                            then info_if storage_fresh ''Fresh groundwater in storage: '' '' ham.''
                            else Inr [])
                     else Inr []) (\<lambda>storage.
                let trends =
                      (if pyval_truthy trend_pre \<or> pyval_truthy trend_post
                       then [''Groundwater trend:''
                             @ (if pyval_truthy trend_pre then '' Pre-monsoon: '' @ pyval_str trend_pre else [])
                             @ (if pyval_truthy trend_post then '' | Post-monsoon: '' @ pyval_str trend_post else [])
                             @ ''.'']
                       else []);
                    text_parts = header @ section_of area_info @ section_of recharge_info
                                 @ section_of resource_info @ section_of (status_nums @ status_cat)
                                 @ trends @ storage
                in Inr (Some
                     \<lparr>c_id = sc_generate_id
                               [Atom (AStr state), opt_str_val district, opt_str_val block,
                                Atom (AStr year), Atom (AStr ''state_report''), serial_no],
                      c_state = state, c_district = district, c_block = block, c_year = year,
                      c_source_type = ''state_report'', c_source = source,
                      c_categorization = categorization,
                      c_text = join '' '' text_parts,
                      c_metadata = metadata_of rainfall_total annual_recharge extractable
                                     extraction_total stage_of_extraction net_availability categorization,
                      c_watershed = (if pyval_truthy watershed then watershed else Atom ANone)\<rparr>))))))))"

section \<open>The sectioned sheets (central\_annexure\_attribute\_etl.py)\<close>

text \<open>
  A sheet is the list of its rows; \<open>ws.cell(row=r, column=c).value\<close> counts from 1 and is
  \<open>None\<close> outside the stored cells; \<open>ws.max_row\<close> is the number of rows.
\<close>

type_synonym sheet = "row list"

definition cell_at :: "sheet \<Rightarrow> nat \<Rightarrow> nat \<Rightarrow> atom" where
  "cell_at ws r c =
     (if 1 \<le> r \<and> r \<le> length ws \<and> 1 \<le> c \<and> c \<le> length (ws ! (r - 1))
      then ws ! (r - 1) ! (c - 1) else ANone)"

text \<open>\<open>cell_a and "DYNAMIC GROUND WATER" in str(cell_a).upper()\<close>\<close>

definition is_sentinel :: "atom \<Rightarrow> bool" where
  "is_sentinel cell_a = (py_truthy cell_a \<and> contains ''DYNAMIC GROUND WATER'' (py_upper (py_str cell_a)))"

text \<open>\<open>safe_float(ws.cell(row=r, column=c).value)\<close> as a leaf of a record.\<close>

definition ca_float_cell :: "sheet \<Rightarrow> nat \<Rightarrow> nat \<Rightarrow> exn + pyval" where
  "ca_float_cell ws r c = ebind (ca_safe_float (cell_at ws r c) (Fin 0)) (\<lambda>f. Inr (float_val f))"

text \<open>\<open>current_state or "Unknown"\<close>\<close>

definition state_or_unknown :: "string option \<Rightarrow> string" where
  "state_or_unknown cur = (case cur of Some s \<Rightarrow> if s \<noteq> [] then s else ''Unknown'' | None \<Rightarrow> ''Unknown'')"

text \<open>\<open>f < 1\<close> for a float.\<close>

fun float_lt_one :: "pyfloat \<Rightarrow> bool" where
  "float_lt_one (Fin q) = (q < 1)"
| "float_lt_one NegZero = True"
| "float_lt_one NInf = True"
| "float_lt_one f = False"

text \<open>
  The serial number check:
  \<^verbatim>\<open>
  try:
      serial = float(cell_a) if cell_a else None
      if serial is None or serial < 1:
          continue
  except (ValueError, TypeError):
      continue
  \<close>
  \<open>Inr True\<close> when the row goes on, \<open>Inr False\<close> when it is skipped.
\<close>

definition serial_ok :: "atom \<Rightarrow> exn + bool" where
  "serial_ok cell_a =
     (if \<not> py_truthy cell_a then Inr False
      else case py_float cell_a of
             Inr f \<Rightarrow> Inr (\<not> float_lt_one f)
           | Inl ValueError \<Rightarrow> Inr False
           | Inl TypeError \<Rightarrow> Inr False
           | Inl e \<Rightarrow> Inl e)"

text \<open>\<open>not district or str(district).strip() in literals\<close>\<close>

definition name_noise :: "string list \<Rightarrow> atom \<Rightarrow> bool" where
  "name_noise literals d = (\<not> py_truthy d \<or> py_strip (py_str d) \<in> set literals)"

subsection \<open>Annexure II\<close>

definition a2_record :: "sheet \<Rightarrow> string \<Rightarrow> string option \<Rightarrow> nat \<Rightarrow> exn + pyval" where
  "a2_record ws year current_state r = dict_of
     [(''serial_no'', ca_float_cell ws r 1),
      (''state'', Inr (Atom (AStr (state_or_unknown current_state)))),
      (''district'', Inr (Atom (AStr (ca_safe_str (cell_at ws r 2) [])))),
      (''year'', Inr (Atom (AStr year))),
      (''ground_water_recharge_ham'', dict_of
         [(''monsoon_season'', dict_of
             [(''from_rainfall'', ca_float_cell ws r 3),
              (''from_other_sources'', ca_float_cell ws r 4)]),
          (''non_monsoon_season'', dict_of
             [(''from_rainfall'', ca_float_cell ws r 5),
              (''from_other_sources'', ca_float_cell ws r 6)]),
          (''total_annual'', ca_float_cell ws r 7)]),
      (''total_natural_discharges_ham'', ca_float_cell ws r 8),
      (''annual_extractable_resource_ham'', ca_float_cell ws r 9),
      (''current_annual_extraction_ham'', dict_of
         [(''irrigation'', ca_float_cell ws r 10),
          (''industrial'', ca_float_cell ws r 11),
          (''domestic'', ca_float_cell ws r 12),
          (''total'', ca_float_cell ws r 13)]),
      (''annual_gw_allocation_domestic_ham'', ca_float_cell ws r 14),
      (''net_gw_availability_ham'', ca_float_cell ws r 15),
      (''stage_of_extraction_percent'', ca_float_cell ws r 16)]"

text \<open>
  One turn of the loop of \<open>extract_annexure2\<close> at row \<open>r\<close>: the section key after the row
  and the records appended (none or one).
  \<^verbatim>\<open>
  if cell_a and "DYNAMIC GROUND WATER" in str(cell_a).upper():
      next_row_val = ws.cell(row=row_idx + 1, column=1).value
      if next_row_val:
          current_state = safe_str(next_row_val)
      continue
  if not cell_a or str(cell_a).strip() in ("", "S.NO", "S.No", "1", "Total(Ham)", "Total(Bcm)"):
      ... the serial number check ...
  district = ws.cell(row=row_idx, column=2).value
  if not district or str(district).strip() in (
          "", "Name of District", "Total", "Total(Ham)", "Total(Bcm)"):
      continue
  record = {...}
  records.append(record)
  \<close>
\<close>

definition a2_row :: "sheet \<Rightarrow> string \<Rightarrow> string option \<Rightarrow> nat \<Rightarrow> exn + (string option \<times> pyval list)" where
  "a2_row ws year current_state r =
     (let cell_a = cell_at ws r 1
      in if is_sentinel cell_a then
           (let next_row_val = cell_at ws (r + 1) 1
            in Inr (if py_truthy next_row_val then Some (ca_safe_str next_row_val [])
                    else current_state, []))
         else
           ebind (if \<not> py_truthy cell_a
                     \<or> py_strip (py_str cell_a)
                        \<in> set [[], ''S.NO'', ''S.No'', ''1'', ''Total(Ham)'', ''Total(Bcm)'']
                  then serial_ok cell_a else Inr True) (\<lambda>ok.
             if \<not> ok then Inr (current_state, [])
             else if name_noise [[], ''Name of District'', ''Total'', ''Total(Ham)'', ''Total(Bcm)'']
                       (cell_at ws r 2)
             then Inr (current_state, [])
             else ebind (a2_record ws year current_state r) (\<lambda>d. Inr (current_state, [d]))))"

subsection \<open>Annexure 3B\<close>

definition a3b_record :: "sheet \<Rightarrow> string option \<Rightarrow> nat \<Rightarrow> exn + pyval" where
  "a3b_record ws current_state r = dict_of
     [(''serial_no'', ca_float_cell ws r 1),
      (''state'', Inr (Atom (AStr (state_or_unknown current_state)))),
      (''district'', Inr (Atom (AStr (ca_safe_str (cell_at ws r 2) [])))),
      (''total_assessed_units'', ca_float_cell ws r 3),
      (''safe'', dict_of
         [(''count'', ca_float_cell ws r 4), (''percent'', ca_float_cell ws r 5)]),
      (''semi_critical'', dict_of
         [(''count'', ca_float_cell ws r 6), (''percent'', ca_float_cell ws r 7)]),
      (''critical'', dict_of
         [(''count'', ca_float_cell ws r 8), (''percent'', ca_float_cell ws r 9)]),
      (''over_exploited'', dict_of
         [(''count'', ca_float_cell ws r 10), (''percent'', ca_float_cell ws r 11)]),
      (''saline'', dict_of
         [(''count'', ca_float_cell ws r 12), (''percent'', ca_float_cell ws r 13)])]"

text \<open>
  One turn of the loop over the sheet \<open>Annexure-3B\<close> in \<open>extract_annexure3\<close>:
  \<^verbatim>\<open>
  if cell_a and "DYNAMIC GROUND WATER" in str(cell_a).upper():
      next_val = ws.cell(row=row_idx + 1, column=1).value
      if next_val and str(next_val).strip() not in ("S.No", "S.NO"):
          current_state = safe_str(next_val)
      continue
  district = ws.cell(row=row_idx, column=2).value
  if not district or str(district).strip() in ("", "Name of District", "Total", "No", "No."):
      continue
  ... the serial number check ...
  record = {...}
  \<close>
\<close>

definition a3b_row :: "sheet \<Rightarrow> string option \<Rightarrow> nat \<Rightarrow> exn + (string option \<times> pyval list)" where
  "a3b_row ws current_state r =
     (let cell_a = cell_at ws r 1
      in if is_sentinel cell_a then
           (let next_val = cell_at ws (r + 1) 1
            in Inr (if py_truthy next_val \<and> py_strip (py_str next_val) \<notin> set [''S.No'', ''S.NO'']
                    then Some (ca_safe_str next_val []) else current_state, []))
         else if name_noise [[], ''Name of District'', ''Total'', ''No'', ''No.''] (cell_at ws r 2)
         then Inr (current_state, [])
         else ebind (serial_ok cell_a) (\<lambda>ok.
                if \<not> ok then Inr (current_state, [])
                else ebind (a3b_record ws current_state r) (\<lambda>d. Inr (current_state, [d]))))"

subsection \<open>The loop over the rows\<close>

text \<open>
  \<open>for row_idx in range(first, ws.max_row + 1)\<close>: the rows are visited in order, the section
  key is carried from one row to the next, and the records are appended in order.
\<close>

fun scan_rows :: "(string option \<Rightarrow> nat \<Rightarrow> exn + (string option \<times> pyval list)) \<Rightarrow> nat list
                  \<Rightarrow> string option \<Rightarrow> exn + pyval list" where
  "scan_rows step [] current_state = Inr []"
| "scan_rows step (r # rs) current_state =
     ebind (step current_state r) (\<lambda>res.
       ebind (scan_rows step rs (fst res)) (\<lambda>rest. Inr (snd res @ rest)))"

definition extract_annexure2 :: "sheet \<Rightarrow> string \<Rightarrow> exn + pyval list" where
  "extract_annexure2 ws year = scan_rows (a2_row ws year) [1..<Suc (length ws)] None"

definition annexure_3b :: "sheet \<Rightarrow> exn + pyval list" where
  "annexure_3b ws = scan_rows (a3b_row ws) [1..<Suc (length ws)] None"

section \<open>Properties of the value model\<close>

lemma ebind_simps [simp]: "ebind (Inl e) f = Inl e" "ebind (Inr x) f = f x"
  by (simp_all add: ebind_def)

lemma float_of_str_error: "float_of_str s = Inl e \<Longrightarrow> e = ValueError"
  by (auto simp: float_of_str_def Let_def split: prod.splits if_splits option.splits)

lemma is_digit_digit_char: "d < 10 \<Longrightarrow> is_digit (digit_char d)"
  by (simp add: is_digit_def digit_char_def)

lemma show_nat_digits: "c \<in> set (show_nat n) \<Longrightarrow> is_digit c"
proof (induction n arbitrary: c rule: show_nat.induct)
  case (1 n)
  show ?case
  proof (cases "n < 10")
    case True
    with "1.prems" show ?thesis
      by (subst (asm) show_nat.simps) (auto intro: is_digit_digit_char)
  next
    case False
    with "1.prems" have "c \<in> set (show_nat (n div 10)) \<or> c = digit_char (nat (n mod 10))"
      by (subst (asm) show_nat.simps) auto
    with False "1.IH" show ?thesis
      by (auto intro!: is_digit_digit_char)
  qed
qed

lemma show_nat_nonempty: "show_nat n \<noteq> []"
  by (subst show_nat.simps) simp

lemma dropWhile_none: "\<forall>c\<in>set xs. \<not> P c \<Longrightarrow> dropWhile P xs = xs"
  by (cases xs) auto

lemma strip_with_id: "\<forall>c\<in>set s. \<not> sp c \<Longrightarrow> strip_with sp s = s"
  by (simp add: strip_with_def dropWhile_none)

lemma char_eq_of_code: "(of_char c :: nat) = n \<Longrightarrow> c = char_of n"
  by auto

lemma lower_char_cases: "lower_char c = d \<Longrightarrow> c = d \<or> (of_char c :: nat) + 32 = of_char d"
proof -
  assume a: "lower_char c = d"
  let ?n = "of_char c :: nat"
  show ?thesis
  proof (cases "(65 \<le> ?n \<and> ?n \<le> 90) \<or> (192 \<le> ?n \<and> ?n \<le> 222 \<and> ?n \<noteq> 215)")
    case True
    with a have "char_of (?n + 32) = d" by (simp add: lower_char_def Let_def)
    then have "(of_char d :: nat) = of_char (char_of (?n + 32) :: char)" by simp
    also have "\<dots> = (?n + 32) mod 256" by (simp only: of_char_of)
    also from True have "\<dots> = ?n + 32" by auto
    finally show ?thesis by simp
  next
    case False
    with a show ?thesis by (simp add: lower_char_def Let_def)
  qed
qed

lemma lower_char_o: "lower_char c = CHR ''o'' \<Longrightarrow> c = CHR ''o'' \<or> c = CHR ''O''"
proof -
  assume "lower_char c = CHR ''o''"
  then have "c = CHR ''o'' \<or> (of_char c :: nat) + 32 = of_char (CHR ''o'')" by (rule lower_char_cases)
  then have "c = CHR ''o'' \<or> (of_char c :: nat) = of_char (CHR ''O'')" by auto
  then show ?thesis
  proof
    assume "c = CHR ''o''" then show ?thesis by (rule disjI1)
  next
    assume "(of_char c :: nat) = of_char (CHR ''O'')"
    then have "c = CHR ''O''" by (rule of_char_eqI)
    then show ?thesis by (rule disjI2)
  qed
qed

lemma lower_none_has_o: "py_lower s = ''none'' \<Longrightarrow> CHR ''o'' \<in> set s \<or> CHR ''O'' \<in> set s"
proof -
  assume a: "py_lower s = ''none''"
  then obtain a1 a2 r where s: "s = a1 # a2 # r"
    by (cases s; cases "tl s") (auto simp: py_lower_def)
  with a have "lower_char a2 = CHR ''o''" by (simp add: py_lower_def)
  then have "a2 = CHR ''o'' \<or> a2 = CHR ''O''" by (rule lower_char_o)
  with s show ?thesis by auto
qed

lemma first_some_in: "first_some f xs = Some y \<Longrightarrow> \<exists>x\<in>set xs. f x = Some y"
  by (induction xs) (auto split: option.splits)

lemma digits_decpt_digits: "c \<in> set (fst (digits_decpt m x)) \<Longrightarrow> is_digit c"
  by (auto simp: digits_decpt_def Let_def strip_zeros_def dest!: set_dropWhileD intro: show_nat_digits)

lemma try_prec_digits: "try_prec a k n = Some r \<Longrightarrow> c \<in> set (fst r) \<Longrightarrow> is_digit c"
  by (auto simp: try_prec_def Let_def split: if_splits dest: digits_decpt_digits)

lemma repr_digits_digits: "c \<in> set (fst (repr_digits a)) \<Longrightarrow> is_digit c"
  by (auto simp: repr_digits_def Let_def split: option.splits
           dest: digits_decpt_digits try_prec_digits dest!: first_some_in)

lemma la_take: "list_all P xs \<Longrightarrow> list_all P (take n xs)"
  by (auto simp: list_all_iff dest: in_set_takeD)

lemma la_drop: "list_all P xs \<Longrightarrow> list_all P (drop n xs)"
  by (auto simp: list_all_iff dest: in_set_dropD)

lemma la_replicate: "P x \<Longrightarrow> list_all P (replicate n x)"
  by (simp add: list_all_iff)

lemma num_char_lits:
  "num_char (CHR ''.'')" "num_char (CHR ''e'')" "num_char (CHR ''+'')" "num_char (CHR ''-'')"
  "num_char (CHR ''0'')"
  by (simp_all add: num_char_def is_digit_def)

lemma show_nat_num: "list_all num_char (show_nat m)"
  by (auto simp: list_all_iff num_char_def dest: show_nat_digits)

lemma repr_pos_chars: "list_all num_char (repr_pos a)"
proof -
  obtain ds decpt where r: "repr_digits a = (ds, decpt)" by (cases "repr_digits a")
  have d: "list_all num_char ds"
    using repr_digits_digits [of _ a] r by (auto simp: list_all_iff num_char_def)
  show ?thesis
    unfolding repr_pos_def r
    by (simp add: Let_def d show_nat_num la_take la_drop la_replicate num_char_lits)
qed

lemma float_repr_no_o: "CHR ''o'' \<notin> set (float_repr f) \<and> CHR ''O'' \<notin> set (float_repr f)"
proof (cases f)
  case (Fin q)
  have "\<not> num_char (CHR ''o'')" "\<not> num_char (CHR ''O'')" by (simp_all add: num_char_def is_digit_def)
  then have "CHR ''o'' \<notin> set (repr_pos a) \<and> CHR ''O'' \<notin> set (repr_pos a)" for a
    using repr_pos_chars [of a] by (auto simp: list_all_iff)
  with Fin show ?thesis by simp
qed simp_all

lemma show_int_chars: "list_all num_char (show_int i)"
  using show_nat_num by (simp add: show_int_def num_char_lits)

section \<open>The digest is 32 hexadecimal digits\<close>

lemma hex_digit_hex: "n < 16 \<Longrightarrow> is_hex (hex_digit n)"
  by (simp add: hex_digit_def is_hex_def)

lemma hex_byte_hex: "b < 256 \<Longrightarrow> list_all is_hex (hex_byte b)"
  by (simp add: hex_byte_def hex_digit_hex less_mult_imp_div_less)

lemma word_bytes_props: "length (word_bytes w) = 4 \<and> list_all (\<lambda>b. b < 256) (word_bytes w)"
  by (simp add: word_bytes_def)

lemma md5_props: "length (md5 msg) = 16 \<and> list_all (\<lambda>b. b < 256) (md5 msg)"
  by (simp add: md5_def word_bytes_props split: prod.splits)

lemma concat_hex_length: "length (concat (map hex_byte bs)) = 2 * length bs"
  by (induction bs) (simp_all add: hex_byte_def)

lemma concat_hex_chars: "list_all (\<lambda>b. b < 256) bs \<Longrightarrow> list_all is_hex (concat (map hex_byte bs))"
  by (induction bs) (simp_all add: hex_byte_hex)

lemma md5_hexdigest_props: "length (md5_hexdigest s) = 32 \<and> list_all is_hex (md5_hexdigest s)"
  by (simp add: md5_hexdigest_def concat_hex_length concat_hex_chars md5_props)

lemma ud_generate_id_props:
  "length (ud_generate_id st d b y m) = 12 \<and> list_all is_hex (ud_generate_id st d b y m)"
  by (simp add: ud_generate_id_def md5_hexdigest_props la_take)


section \<open>String coercion\<close>

lemma num_char_not_space: "num_char c \<Longrightarrow> \<not> is_space c"
  by (auto simp: num_char_def is_digit_def is_space_def)

lemma num_char_not_o: "num_char c \<Longrightarrow> c \<noteq> CHR ''o'' \<and> c \<noteq> CHR ''O''"
  by (auto simp: num_char_def is_digit_def)

lemma numeric_strip: "list_all num_char s \<Longrightarrow> py_strip s = s"
  unfolding py_strip_def by (rule strip_with_id) (auto simp: list_all_iff dest: num_char_not_space)

lemma numeric_not_none: "list_all num_char s \<Longrightarrow> py_lower s \<noteq> ''none''"
  by (auto simp: list_all_iff dest!: lower_none_has_o dest: num_char_not_o)

lemma float_repr_strip: "py_strip (float_repr f) = float_repr f"
proof (cases f)
  case (Fin q)
  have "py_strip (CHR ''-'' # repr_pos a) = CHR ''-'' # repr_pos a" for a
    by (rule numeric_strip) (simp add: repr_pos_chars num_char_lits)
  with Fin show ?thesis
    by (simp add: numeric_strip repr_pos_chars) (simp add: py_strip_def strip_with_def is_space_def)
qed (simp_all add: py_strip_def strip_with_def is_space_def)

lemma float_repr_not_none: "py_lower (float_repr f) \<noteq> ''none''"
  using float_repr_no_o [of f] lower_none_has_o [of "float_repr f"] by blast

text \<open>
  C8 (as amended). \<open>safe_str\<close> of the state report ETL maps \<open>None\<close>, the empty string and
  every string that lower-cases to \<open>none\<close> to \<open>None\<close>, and returns every other cell as its
  \<open>str()\<close> with surrounding whitespace removed (numbers and booleans render without
  whitespace, so they come back as rendered). \<open>safe_str\<close> of the central and annexure ETL
  maps only \<open>None\<close> to the default and returns the trimmed \<open>str()\<close> of every other cell:
  it has no case for the literal \<open>none\<close>.
\<close>

theorem safe_str_coercion:
  "sr_safe_str ANone = None
   \<and> sr_safe_str (AStr s) = (if s = [] \<or> py_lower s = ''none'' then None else Some (py_strip s))
   \<and> sr_safe_str (ABool b) = Some (if b then ''True'' else ''False'')
   \<and> sr_safe_str (AInt i) = Some (show_int i)
   \<and> sr_safe_str (AFloat f) = Some (float_repr f)
   \<and> ca_safe_str ANone d = d
   \<and> ca_safe_str (AStr s) d = py_strip s
   \<and> ca_safe_str (ABool b) d = (if b then ''True'' else ''False'')
   \<and> ca_safe_str (AInt i) d = show_int i
   \<and> ca_safe_str (AFloat f) d = float_repr f"
proof -
  have t: "py_strip ''True'' = ''True''" "py_strip ''False'' = ''False''"
    by (simp_all add: py_strip_def strip_with_def is_space_def)
  have tl: "py_lower ''True'' \<noteq> ''none''" "py_lower ''False'' \<noteq> ''none''"
    using lower_none_has_o [of "''True''"] lower_none_has_o [of "''False''"] by auto
  have 1: "sr_safe_str ANone = None" by (simp add: sr_safe_str_def)
  have 2: "sr_safe_str (AStr s) = (if s = [] \<or> py_lower s = ''none'' then None else Some (py_strip s))"
    by (simp add: sr_safe_str_def)
  have 3: "sr_safe_str (ABool b) = Some (if b then ''True'' else ''False'')"
    using t tl by (simp add: sr_safe_str_def)
  have 4: "sr_safe_str (AInt i) = Some (show_int i)"
    by (simp add: sr_safe_str_def numeric_strip numeric_not_none show_int_chars)
  have 5: "sr_safe_str (AFloat f) = Some (float_repr f)"
    by (simp add: sr_safe_str_def float_repr_strip float_repr_not_none)
  have 6: "ca_safe_str ANone d = d" "ca_safe_str (AStr s) d = py_strip s"
    by (simp_all add: ca_safe_str_def)
  have 7: "ca_safe_str (ABool b) d = (if b then ''True'' else ''False'')"
    using t by (simp add: ca_safe_str_def)
  have 8: "ca_safe_str (AInt i) d = show_int i" "ca_safe_str (AFloat f) d = float_repr f"
    by (simp_all add: ca_safe_str_def numeric_strip show_int_chars float_repr_strip)
  from 1 2 3 4 5 6 7 8 show ?thesis by blast
qed

text \<open>
  C8 as stated fails for the central and annexure \<open>safe_str\<close>: the literal string \<open>none\<close> is
  returned as it is, not replaced by the default \<open>""\<close>.
\<close>

theorem safe_str_none_counterexample: "ca_safe_str (AStr ''none'') [] = ''none''"
  by (simp add: ca_safe_str_def py_strip_def strip_with_def is_space_def)

section \<open>Float coercion\<close>

lemmas float_eval =
  float_of_str_def strip_with_def is_float_space_def take_sign_def py_lower_def lower_char_def
  parse_decimal_def is_digit_def int_of_digits_def digit_val_def pow10_def pow2_def to_double_def
  round_mag_def ilog_def ndigits.simps round_half_even_def Let_def

lemmas str_eval =
  py_strip_def strip_with_def is_space_def remove_commas_def py_lower_def lower_char_def char_of_def
  bit_Suc_0_iff

lemma float_of_str_tokens:
  "float_of_str ''-'' = Inl ValueError" "float_of_str ''NA'' = Inl ValueError"
  "float_of_str ''N/A'' = Inl ValueError" "float_of_str ''NR'' = Inl ValueError"
  "float_of_str ''--'' = Inl ValueError" "float_of_str [] = Inl ValueError"
  by (simp_all add: float_eval)

lemma py_lower_tokens:
  "py_lower ''-'' = ''-''" "py_lower ''NA'' = ''na''" "py_lower ''N/A'' = ''n/a''"
  "py_lower ''NR'' = ''nr''" "py_lower ''--'' = ''--''"
  by (simp_all add: str_eval)

lemma thousands_example:
  "py_lower ''1,234.5'' = ''1,234.5''" "float_of_str ''1,234.5'' = Inl ValueError"
  "remove_commas (py_strip ''1,234.5'') = ''1234.5''" "float_of_str ''1234.5'' = Inr (Fin (2469 / 2))"
  by (simp_all add: float_eval str_eval)

lemma sr_safe_float_str:
  "sr_safe_float (AStr s) d =
     (if s = [] \<or> py_lower s = ''none'' \<or> py_lower s = ''nan'' then Inr d
      else case float_of_str s of Inr f \<Rightarrow> Inr f | Inl e \<Rightarrow> Inr d)"
  by (auto simp: sr_safe_float_def py_lower_def split: sum.splits exn.splits dest: float_of_str_error)

lemma ca_safe_float_str:
  "ca_safe_float (AStr s) d =
     (let cleaned = remove_commas (py_strip s)
      in if cleaned \<in> set missing_tokens then Inr d
         else case float_of_str cleaned of Inr f \<Rightarrow> Inr f | Inl e \<Rightarrow> Inr d)"
  by (auto simp: Let_def split: sum.splits exn.splits dest: float_of_str_error)

lemma sr_safe_float_tokens: "t \<in> set missing_tokens \<Longrightarrow> sr_safe_float (AStr t) d = Inr d"
  by (auto simp: missing_tokens_def sr_safe_float_str float_of_str_tokens py_lower_tokens)

lemma cleaned_tokens:
  "remove_commas (py_strip ''-'') = ''-''" "remove_commas (py_strip ''NA'') = ''NA''"
  "remove_commas (py_strip ''N/A'') = ''N/A''" "remove_commas (py_strip ''NR'') = ''NR''"
  "remove_commas (py_strip ''--'') = ''--''" "remove_commas (py_strip []) = []"
  by (simp_all add: str_eval)

lemma ca_safe_float_tokens: "t \<in> set missing_tokens \<Longrightarrow> ca_safe_float (AStr t) d = Inr d"
  unfolding ca_safe_float_str by (auto simp: missing_tokens_def cleaned_tokens)

text \<open>
  C1 (as amended). Both \<open>safe_float\<close> functions return the default for \<open>None\<close> and for each of
  the tokens \<open>""\<close>, \<open>-\<close>, \<open>NA\<close>, \<open>N/A\<close>, \<open>NR\<close>, \<open>--\<close>, and neither raises on a
  string cell: what \<open>float\<close> cannot parse gives the default. The central and annexure
  \<open>safe_float\<close> trims the string and removes its commas before it parses, so \<open>1,234.5\<close>
  is 1234.5 there. The state report \<open>safe_float\<close> parses the string as it is (after
  the default for strings that lower-case to \<open>none\<close> or \<open>nan\<close>), so \<open>1,234.5\<close> is
  unparseable there and gives the default.
\<close>

theorem safe_float_coercion:
  "ca_safe_float ANone d = Inr d
   \<and> sr_safe_float ANone d = Inr d
   \<and> (\<forall>t\<in>set missing_tokens. ca_safe_float (AStr t) d = Inr d \<and> sr_safe_float (AStr t) d = Inr d)
   \<and> ca_safe_float (AStr s) d =
       (let cleaned = remove_commas (py_strip s)
        in if cleaned \<in> set missing_tokens then Inr d
           else case float_of_str cleaned of Inr f \<Rightarrow> Inr f | Inl e \<Rightarrow> Inr d)
   \<and> sr_safe_float (AStr s) d =
       (if s = [] \<or> py_lower s = ''none'' \<or> py_lower s = ''nan'' then Inr d
        else case float_of_str s of Inr f \<Rightarrow> Inr f | Inl e \<Rightarrow> Inr d)
   \<and> ca_safe_float (AStr ''1,234.5'') d = Inr (Fin (2469 / 2))
   \<and> sr_safe_float (AStr ''1,234.5'') d = Inr d"
proof -
  have 1: "ca_safe_float ANone d = Inr d" "sr_safe_float ANone d = Inr d"
    by (simp_all add: sr_safe_float_def)
  have 2: "\<forall>t\<in>set missing_tokens. ca_safe_float (AStr t) d = Inr d \<and> sr_safe_float (AStr t) d = Inr d"
    using sr_safe_float_tokens ca_safe_float_tokens by blast
  have 3: "ca_safe_float (AStr ''1,234.5'') d = Inr (Fin (2469 / 2))"
    unfolding ca_safe_float_str by (simp add: thousands_example missing_tokens_def)
  have 4: "sr_safe_float (AStr ''1,234.5'') d = Inr d"
    unfolding sr_safe_float_str by (simp add: thousands_example)
  from 1 2 3 4 ca_safe_float_str [of s d] sr_safe_float_str [of s d] show ?thesis by blast
qed

text \<open>The theorem at the token \<open>NA\<close> with default 0.0.\<close>

theorem safe_float_coercion_witness:
  "''NA'' \<in> set missing_tokens \<and> ca_safe_float (AStr ''NA'') (Fin 0) = Inr (Fin 0)
   \<and> sr_safe_float (AStr ''NA'') (Fin 0) = Inr (Fin 0)"
  using safe_float_coercion [of "Fin 0" "''NA''"] by (simp add: missing_tokens_def)

section \<open>The state report decoder\<close>

lemma float_at_short: "length row \<le> i \<Longrightarrow> float_at row i = Inr (float_val (Fin 0))"
  by (simp add: float_at_def)

lemma str_at_short: "length row \<le> i \<Longrightarrow> str_at row i = Inr (Atom ANone)"
  by (simp add: str_at_def)

lemma get_cnc_pq_short:
  "length row \<le> start \<Longrightarrow> get_cnc_pq row start = Inr (Dict
     [(''contaminated'', float_val (Fin 0)), (''non_contaminated'', float_val (Fin 0)),
      (''poor_quality'', float_val (Fin 0)), (''total'', float_val (Fin 0))])"
  by (simp add: get_cnc_pq_def dict_of_def float_at_short)

lemma get_fresh_saline_short:
  "length row \<le> start \<Longrightarrow> get_fresh_saline row start = Inr (Dict
     [(''fresh'', float_val (Fin 0)), (''saline'', float_val (Fin 0))])"
  by (simp add: get_fresh_saline_def dict_of_def float_at_short)

lemmas short_row = float_at_short str_at_short get_cnc_pq_short get_fresh_saline_short

lemma scenario_cells:
  "serial_of (AStr ''1'') = Inr (Some (Fin 1))"
  "sr_safe_str (AStr ''1'') = Some ''1''"
  "sr_safe_str (AStr ''StateX'') = Some ''StateX''"
  "sr_safe_str (AStr ''DistrictY'') = Some ''DistrictY''"
  "sr_safe_str (AStr ''BlockZ'') = Some ''BlockZ''"
  "serial_no_of (Fin 1) = Inr (Atom (AInt 1))"
  "sr_safe_float ANone (Fin 0) = Inr (Fin 0)"
  by (simp_all add: serial_of_def serial_no_of_def sr_safe_str_def sr_safe_float_def float_eval str_eval)

text \<open>
  C1 as stated fails in the state report decoder: the row of the scenario, with the string
  \<open>1,234.5\<close> in the rainfall total column (index 8), decodes to a record whose
  \<open>rainfall_mm.total\<close> is the default 0.0, not 1234.5.
\<close>

theorem state_report_thousands_counterexample:
  "(case parse_row_to_record
           [AStr ''1'', AStr ''StateX'', AStr ''DistrictY'', AStr ''BlockZ'', ANone,
            ANone, ANone, ANone, AStr ''1,234.5'', ANone] ''StateX'' ''2023-2024'' of
      Inr (Some d) \<Rightarrow> dict_get (dict_get d ''rainfall_mm'') ''total''
    | _ \<Rightarrow> Atom ANone) = Atom (AFloat (Fin 0))"
proof -
  have t: "sr_safe_float (AStr ''1,234.5'') (Fin 0) = Inr (Fin 0)"
    unfolding sr_safe_float_str by (simp add: thousands_example)
  show ?thesis
    by (simp add: parse_row_to_record_def build_record_def scenario_cells t dict_of_def
          short_row get_cnc_pq_def float_at_def opt_str_val_def float_val_def)
qed

lemma nan_cells:
  "serial_of (AStr ''nan'') = Inr (Some NaN)" "sr_safe_str (AStr ''nan'') = Some ''nan''"
  "serial_no_of NaN = Inl ValueError"
  by (simp_all add: serial_of_def serial_no_of_def sr_safe_str_def float_eval str_eval)

text \<open>
  C7 fails on the code. A row of ten cells whose first cell is the string \<open>nan\<close> passes the
  serial number check (\<open>float("nan")\<close> is a float and is truthy), and \<open>int(serial)\<close>, which
  is outside the \<open>try\<close>, raises \<open>ValueError\<close>: the decoder raises instead of returning
  \<open>None\<close>.
\<close>

theorem parse_row_nan_raises:
  "parse_row_to_record
     [AStr ''nan'', ANone, ANone, ANone, ANone, ANone, ANone, ANone, ANone, ANone]
     ''StateX'' ''2023-2024'' = Inl ValueError"
  by (simp add: parse_row_to_record_def build_record_def nan_cells dict_of_def)

lemma ebind_Inr: "ebind m f = Inr y \<Longrightarrow> \<exists>x. m = Inr x \<and> f x = Inr y"
  by (cases m) simp_all

lemma dict_of_lookup3:
  "dict_of ((k1, m1) # (k2, m2) # (k3, Inr v3) # rest) = Inr d \<Longrightarrow> k3 \<noteq> k1 \<Longrightarrow> k3 \<noteq> k2
   \<Longrightarrow> dict_get d k3 = v3"
  by (auto simp: dict_of_def dest!: ebind_Inr)

lemma parse_row_district:
  assumes "parse_row_to_record row state year = Inr (Some d)"
  shows "dict_get d ''district'' = opt_str_val (sr_safe_str (row ! 2))"
proof -
  from assms obtain f where "build_record row f state year = Inr d"
    by (auto simp: parse_row_to_record_def split: if_splits option.splits dest!: ebind_Inr)
  then show ?thesis
    unfolding build_record_def by (rule dict_of_lookup3) simp_all
qed

lemma extract_state_report_kept:
  "extract_state_report rows state year = Inr recs \<Longrightarrow> r \<in> set recs \<Longrightarrow>
     (\<exists>row\<in>set rows. parse_row_to_record row state year = Inr (Some r))
     \<and> pyval_truthy (dict_get r ''district'')"
proof (induction rows arbitrary: recs)
  case Nil
  then show ?case by simp
next
  case (Cons row rows)
  from Cons.prems(1) obtain parsed kept where
    p: "parse_row_to_record row state year = Inr parsed" and
    e: "extract_state_report rows state year = Inr kept" and
    k: "recs = (case parsed of
                  Some d \<Rightarrow> if pyval_truthy d \<and> pyval_truthy (dict_get d ''district'')
                             then d # kept else kept
                | None \<Rightarrow> kept)"
    by (auto dest!: ebind_Inr split: option.splits if_splits)
  show ?case
  proof (cases "r \<in> set kept")
    case True
    with Cons.IH [OF e] show ?thesis by auto
  next
    case False
    with k Cons.prems(2) have "parsed = Some r \<and> pyval_truthy (dict_get r ''district'')"
      by (auto split: option.splits if_splits)
    with p show ?thesis by auto
  qed
qed

text \<open>
  C9. Every record that \<open>extract_state_report\<close> returns is the decoding of one of the rows
  and has a district that is not \<open>None\<close>: it is a non-empty string. Rows whose decoded
  district is \<open>None\<close> or empty are not appended.
\<close>

theorem extracted_records_have_district:
  assumes "extract_state_report rows state year = Inr recs" and "r \<in> set recs"
  shows "dict_get r ''district'' \<noteq> Atom ANone
         \<and> (\<exists>s. s \<noteq> [] \<and> dict_get r ''district'' = Atom (AStr s))
         \<and> (\<exists>row\<in>set rows. parse_row_to_record row state year = Inr (Some r))"
proof -
  from extract_state_report_kept [OF assms] obtain row where
    row: "row \<in> set rows" "parse_row_to_record row state year = Inr (Some r)" and
    t: "pyval_truthy (dict_get r ''district'')"
    by blast
  from parse_row_district [OF row(2)] t
  have "\<exists>s. s \<noteq> [] \<and> dict_get r ''district'' = Atom (AStr s)"
    by (cases "sr_safe_str (row ! 2)") (simp_all add: opt_str_val_def)
  with row show ?thesis by auto
qed

lemma second_row_cells:
  "serial_of (AStr ''2'') = Inr (Some (Fin 2))"
  "sr_safe_str (AStr ''2'') = Some ''2''"
  "serial_no_of (Fin 2) = Inr (Atom (AInt 2))"
  "sr_safe_str ANone = None"
  by (simp_all add: serial_of_def serial_no_of_def sr_safe_str_def float_eval str_eval)

text \<open>
  The theorem on a sheet of two data rows, the second without a district: one record is
  returned and its district is not \<open>None\<close>.
\<close>

theorem extracted_records_have_district_witness:
  "(case extract_state_report
           [[AStr ''1'', AStr ''StateX'', AStr ''DistrictY'', AStr ''BlockZ'', ANone,
             ANone, ANone, ANone, ANone, ANone],
            [AStr ''2'', AStr ''StateX'', ANone, AStr ''BlockW'', ANone,
             ANone, ANone, ANone, ANone, ANone]] ''StateX'' ''2023-2024'' of
      Inr [r] \<Rightarrow> dict_get r ''district''
    | _ \<Rightarrow> Atom ANone) \<noteq> Atom ANone"
proof -
  let ?rows = "[[AStr ''1'', AStr ''StateX'', AStr ''DistrictY'', AStr ''BlockZ'', ANone,
             ANone, ANone, ANone, ANone, ANone],
            [AStr ''2'', AStr ''StateX'', ANone, AStr ''BlockW'', ANone,
             ANone, ANone, ANone, ANone, ANone]]"
  have "\<exists>r. extract_state_report ?rows ''StateX'' ''2023-2024'' = Inr [r]"
    by (simp add: parse_row_to_record_def build_record_def scenario_cells second_row_cells
          dict_of_def short_row get_cnc_pq_def float_at_def opt_str_val_def float_val_def
          sr_safe_str_def str_eval)
  then obtain r where e: "extract_state_report ?rows ''StateX'' ''2023-2024'' = Inr [r]" ..
  from extracted_records_have_district [OF e, of r]
  have "dict_get r ''district'' \<noteq> Atom ANone" by simp
  with e show ?thesis by simp
qed

section \<open>Metric facts\<close>

lemma create_record_Some:
  assumes "create_record state district block year metric v unit category source source_type desc cat
           = Inr (Some r)"
  shows "f_id r = ud_generate_id state
                    (Atom (AStr (opt_or_empty district))) (Atom (AStr (opt_or_empty block)))
                    year (Atom (AStr metric))
         \<and> f_metric r = metric \<and> f_value r = v \<and> f_source r = source \<and> \<not> is_blank v
         \<and> \<not> (is_number v \<and> is_zero v \<and> \<not> keeps_zero metric)"
  using assms by (auto simp: create_record_def split: if_splits dest!: ebind_Inr)


lemma generate_text_total:
  "ud_format_value v = Inr s \<Longrightarrow> \<exists>t. generate_text state district block year desc v unit = Inr t"
  by (simp add: generate_text_def Let_def)















lemma ud_format_value_total: "finite_value v \<Longrightarrow> \<exists>s. ud_format_value v = Inr s"
  by (cases v rule: finite_value.cases) auto




lemma create_record_kept:
  assumes "finite_value v" "\<not> is_blank v" "\<not> (is_number v \<and> is_zero v \<and> \<not> keeps_zero metric)"
  shows "\<exists>r. create_record state district block year metric v unit category source source_type desc cat
            = Inr (Some r)"
proof -
  from assms(1) obtain s where "ud_format_value v = Inr s" using ud_format_value_total by blast
  then obtain t where "generate_text state district block year desc v unit = Inr t"
    using generate_text_total by blast
  with assms(2,3) show ?thesis by (auto simp: create_record_def)
qed


section \<open>Zero values and the facts kept\<close>




section \<open>The id of a fact\<close>

text \<open>
  C10. Two records made by \<open>create_record\<close> from the same state, year and metric, and from
  districts and blocks that are the same once \<open>None\<close> is read as the empty string, have the
  same id, whatever their value, unit, category, source, source type, description and
  categorization are. The id is the first 12 hexadecimal digits of the MD5 digest of
  \<open>state|district|block|year|metric\<close>.
\<close>

theorem fact_id_depends_on_five_fields:
  assumes "create_record state district block year metric v unit category source source_type desc cat
           = Inr (Some r)"
      and "create_record state district' block' year metric v' unit' category' source' source_type'
             desc' cat' = Inr (Some r')"
      and "opt_or_empty district' = opt_or_empty district"
      and "opt_or_empty block' = opt_or_empty block"
  shows "f_id r = f_id r' \<and> length (f_id r) = 12 \<and> list_all is_hex (f_id r)
         \<and> f_id r = ud_generate_id state (Atom (AStr (opt_or_empty district)))
                      (Atom (AStr (opt_or_empty block))) year (Atom (AStr metric))"
  using create_record_Some [OF assms(1)] create_record_Some [OF assms(2)] assms(3,4)
  by (simp add: ud_generate_id_props)

text \<open>
  The theorem at two facts for the same district, year and metric taken from different
  source files, with different values; the block is \<open>None\<close> in one and empty in the other.
\<close>

theorem fact_id_depends_on_five_fields_witness:
  "(case (create_record (Atom (AStr ''StateX'')) (Some ''DistrictY'') None (Atom (AStr ''2023-2024''))
            ''extraction_total_ham'' (Atom (AFloat (Fin 12))) ''ham'' ''extraction''
            ''central_reports/a.json'' ''central_report'' ''total groundwater extraction'' (Atom ANone),
          create_record (Atom (AStr ''StateX'')) (Some ''DistrictY'') (Some []) (Atom (AStr ''2023-2024''))
            ''extraction_total_ham'' (Atom (AInt 7)) ''bcm'' ''annual'' ''annexure2/b.json''
            ''annexure2'' ''extraction'' (Atom (AStr ''safe''))) of
      (Inr (Some r), Inr (Some r')) \<Rightarrow>
         f_id r = f_id r' \<and> length (f_id r) = 12 \<and> f_value r \<noteq> f_value r' \<and> f_source r \<noteq> f_source r'
    | _ \<Rightarrow> False)"
proof -
  let ?st = "Atom (AStr ''StateX'')" and ?y = "Atom (AStr ''2023-2024'')"
  have "\<exists>r. create_record ?st (Some ''DistrictY'') None ?y
            ''extraction_total_ham'' (Atom (AFloat (Fin 12))) ''ham'' ''extraction''
            ''central_reports/a.json'' ''central_report'' ''total groundwater extraction'' (Atom ANone)
            = Inr (Some r)"
    by (rule create_record_kept) simp_all
  then obtain r where r: "create_record ?st (Some ''DistrictY'') None ?y
            ''extraction_total_ham'' (Atom (AFloat (Fin 12))) ''ham'' ''extraction''
            ''central_reports/a.json'' ''central_report'' ''total groundwater extraction'' (Atom ANone)
            = Inr (Some r)" ..
  have "\<exists>r. create_record ?st (Some ''DistrictY'') (Some []) ?y
            ''extraction_total_ham'' (Atom (AInt 7)) ''bcm'' ''annual'' ''annexure2/b.json''
            ''annexure2'' ''extraction'' (Atom (AStr ''safe'')) = Inr (Some r)"
    by (rule create_record_kept) simp_all
  then obtain r' where r': "create_record ?st (Some ''DistrictY'') (Some []) ?y
            ''extraction_total_ham'' (Atom (AInt 7)) ''bcm'' ''annual'' ''annexure2/b.json''
            ''annexure2'' ''extraction'' (Atom (AStr ''safe'')) = Inr (Some r')" ..
  have b: "opt_or_empty (Some []) = opt_or_empty None" by (simp add: opt_or_empty_def)
  from fact_id_depends_on_five_fields [OF r r' refl b]
  have "f_id r = f_id r' \<and> length (f_id r) = 12" by blast
  moreover from create_record_Some [OF r] create_record_Some [OF r']
  have "f_value r \<noteq> f_value r' \<and> f_source r \<noteq> f_source r'" by simp
  ultimately have c: "f_id r = f_id r' \<and> length (f_id r) = 12 \<and> f_value r \<noteq> f_value r'
                      \<and> f_source r \<noteq> f_source r'"
    by blast
  show ?thesis
    by (simp only: r r' prod.case sum.case option.case) (rule c)
qed

section \<open>The placeholder of the chunk ids\<close>












end
